theory Spec2Isabelle
  imports Main "HOL-Library.Finite_Map" "HOL-Library.Sublist"
begin

section \<open>Python values and the library functions the script calls\<close>

text \<open>
  The script \<^verbatim>\<open>scripts/fix-cloud-run-traffic.py\<close> is one function, \<^verbatim>\<open>main\<close>.
  It handles the values that \<^verbatim>\<open>json.loads\<close> and \<^verbatim>\<open>yaml.safe_load\<close> return:
  \<^verbatim>\<open>None\<close>, booleans, integers, strings, lists and dictionaries. Dictionary keys
  are strings, as in every JSON document and in an exported service document;
  a dictionary is a finite map, so that equality ignores the order of keys, as
  Python's \<^verbatim>\<open>==\<close> does. Floating-point numbers are outside this model. What
  \<^verbatim>\<open>json.loads\<close> returns is a finite tree, and \<^verbatim>\<open>main\<close> only reads it.
\<close>

datatype pyval =
    PNone
  | PBool bool
  | PInt int
  | PStr string
  | PList "pyval list"
  | PDict "(string, pyval) fmap"

text \<open>The exceptions that the statements of \<^verbatim>\<open>main\<close> can raise; none is caught.\<close>

datatype py_exc =
    JSONDecodeError
  | YamlError
  | TypeError
  | KeyError
  | IndexError
  | FileNotFoundError

text \<open>
  What \<^verbatim>\<open>yaml.safe_load\<close> returns is an object graph: a node that the text
  marks with an anchor and mentions again through aliases is one object, and
  \<^verbatim>\<open>main\<close> changes a dictionary of the graph in place (line 82). A loaded
  document is therefore a root value and a store of the shared nodes: \<open>YRef a\<close>
  is the object at address \<open>a\<close> of the store, wherever it occurs; a list or a
  dictionary that is written in place is an object that nothing else refers
  to.
\<close>

datatype yval =
    YNone
  | YBool bool
  | YInt int
  | YStr string
  | YList "yval list"
  | YDict "(string, yval) fmap"
  | YRef nat

record ydoc =
  shared :: "(nat, yval) fmap"
  root :: yval

text \<open>
  A value built by \<^verbatim>\<open>main\<close> from parsed JSON, when it is stored in the
  document: nothing in it is shared with the document.
\<close>

primrec of_pyval :: "pyval \<Rightarrow> yval" where
  "of_pyval PNone = YNone"
| "of_pyval (PBool b) = YBool b"
| "of_pyval (PInt i) = YInt i"
| "of_pyval (PStr s) = YStr s"
| "of_pyval (PList xs) = YList (map of_pyval xs)"
| "of_pyval (PDict m) = YDict (fmmap of_pyval m)"

text \<open>
  The parsers and the serializer belong to libraries, not to the repository:
  they are parameters of the model. \<open>None\<close> stands for the parser's exception
  on a malformed text. \<open>py_str\<close> is Python's \<^verbatim>\<open>str()\<close> on a value that is not
  itself a string (an f-string field of a string is the string).
\<close>

record lib =
  json_loads :: "string \<Rightarrow> pyval option"
  yaml_safe_load :: "string \<Rightarrow> ydoc option"
  yaml_dump :: "ydoc \<Rightarrow> string"
  py_str :: "pyval \<Rightarrow> string"

definition format_value :: "lib \<Rightarrow> pyval \<Rightarrow> string" where
  "format_value l v = (case v of PStr s \<Rightarrow> s | _ \<Rightarrow> py_str l v)"

section \<open>The outside world: the file system and the command-line tool\<close>

text \<open>
  \<^verbatim>\<open>subprocess.run(cmd, capture_output=True, text=True)\<close> starts the program
  \<^verbatim>\<open>cmd[0]\<close> with the argument vector \<^verbatim>\<open>cmd\<close>, without a shell, and returns its
  exit status and the text of its two output streams. What the program does
  is not the script's: it is a parameter, a function of the argument vector
  and of the files it finds, that returns the completed process and the files
  it leaves. Every call is recorded with the files it found. The model takes
  it that the program can be started, that the \<^verbatim>\<open>yaml\<close> module can be
  imported and that the export file can be written; a file that is not there
  cannot be read.
\<close>

record completed =
  returncode :: int
  stdout :: string
  stderr :: string

type_synonym files = "(string, string) fmap"

type_synonym tool = "string list \<Rightarrow> files \<Rightarrow> completed \<times> files"

record call =
  argv :: "string list"
  files_before :: files
  result :: completed

record state =
  files :: files
  printed :: "string list"
  calls :: "call list"

definition print_line :: "string \<Rightarrow> state \<Rightarrow> state" where
  "print_line msg s = s\<lparr>printed := printed s @ [msg]\<rparr>"

definition subprocess_run :: "tool \<Rightarrow> string list \<Rightarrow> state \<Rightarrow> completed \<times> state" where
  "subprocess_run t cmd s =
     (let (r, fs') = t cmd (files s)
      in (r, s\<lparr>files := fs',
                calls := calls s @ [\<lparr>argv = cmd, files_before = files s, result = r\<rparr>]\<rparr>))"

text \<open>
  How a run of \<^verbatim>\<open>main\<close> ends: it returns a status, which \<^verbatim>\<open>sys.exit\<close> makes
  the exit status of the process, or an exception leaves it, and the
  interpreter exits with status 1.
\<close>

datatype outcome = Returned int | Raised py_exc

fun exit_status :: "outcome \<Rightarrow> int" where
  "exit_status (Returned n) = n"
| "exit_status (Raised e) = 1"

section \<open>The constants of the script\<close>

definition service_name :: string where "service_name = ''prop-management''"
definition region :: string where "region = ''europe-west4''"
definition project :: string where "project = ''rentalspot-fzwom''"
definition export_file :: string where "export_file = ''/tmp/service.yaml''"

definition describe_cmd :: "string list" where
  "describe_cmd =
     [''gcloud'', ''run'', ''services'', ''describe'', service_name,
      ''--region'', region, ''--project'', project, ''--format'', ''json'']"

definition list_cmd :: "string list" where
  "list_cmd =
     [''gcloud'', ''run'', ''revisions'', ''list'', ''--service'', service_name,
      ''--region'', region, ''--project'', project, ''--format'', ''json'']"

definition export_cmd :: "string list" where
  "export_cmd =
     [''gcloud'', ''run'', ''services'', ''describe'', service_name,
      ''--region'', region, ''--project'', project, ''--format'', ''export'',
      ''>'', export_file]"

definition replace_cmd :: "string list" where
  "replace_cmd =
     [''gcloud'', ''run'', ''services'', ''replace'', export_file,
      ''--region'', region, ''--project'', project]"

section \<open>Subscripts\<close>

text \<open>
  \<^verbatim>\<open>x[k]\<close> for a string \<^verbatim>\<open>k\<close>: the value under the key in a dictionary,
  \<^verbatim>\<open>KeyError\<close> when the key is absent, \<^verbatim>\<open>TypeError\<close> on every other value.
\<close>

fun subscript :: "pyval \<Rightarrow> string \<Rightarrow> py_exc + pyval" where
  "subscript (PDict m) k = (case fmlookup m k of None \<Rightarrow> Inl KeyError | Some v \<Rightarrow> Inr v)"
| "subscript _ k = Inl TypeError"

text \<open>\<^verbatim>\<open>r["metadata"]["name"]\<close>\<close>

definition metadata_name :: "pyval \<Rightarrow> py_exc + pyval" where
  "metadata_name r =
     (case subscript r ''metadata'' of Inl e \<Rightarrow> Inl e | Inr m \<Rightarrow> subscript m ''name'')"

text \<open>
  The comprehension of line 47, \<^verbatim>\<open>[r["metadata"]["name"] for r in revisions]\<close>:
  the elements are visited in order and the first exception leaves the
  comprehension.
\<close>

fun names_of :: "pyval list \<Rightarrow> py_exc + pyval list" where
  "names_of [] = Inr []"
| "names_of (r # rs) =
     (case metadata_name r of
        Inl e \<Rightarrow> Inl e
      | Inr n \<Rightarrow> (case names_of rs of Inl e \<Rightarrow> Inl e | Inr ns \<Rightarrow> Inr (n # ns)))"

text \<open>
  Iterating a value that is not a list: a dictionary yields its keys and a
  string its characters, all of them strings, whose subscript with
  \<^verbatim>\<open>"metadata"\<close> is a \<^verbatim>\<open>TypeError\<close>; the other values are not iterable.
\<close>

fun existing_revision_names :: "pyval \<Rightarrow> py_exc + pyval list" where
  "existing_revision_names (PList rs) = names_of rs"
| "existing_revision_names (PDict m) = (if m = fmempty then Inr [] else Inl TypeError)"
| "existing_revision_names (PStr s) = (if s = [] then Inr [] else Inl TypeError)"
| "existing_revision_names _ = Inl TypeError"

text \<open>\<^verbatim>\<open>revisions[0]\<close>\<close>

fun first_of :: "pyval \<Rightarrow> py_exc + pyval" where
  "first_of (PList []) = Inl IndexError"
| "first_of (PList (r # rs)) = Inr r"
| "first_of (PDict m) = Inl KeyError"
| "first_of (PStr []) = Inl IndexError"
| "first_of (PStr (c # cs)) = Inr (PStr [c])"
| "first_of _ = Inl TypeError"

text \<open>Line 50: \<^verbatim>\<open>latest_revision = revisions[0]["metadata"]["name"]\<close>\<close>

definition latest_revision :: "pyval \<Rightarrow> py_exc + pyval" where
  "latest_revision revisions =
     (case first_of revisions of Inl e \<Rightarrow> Inl e | Inr r \<Rightarrow> metadata_name r)"

text \<open>Lines 47 to 50 together: the names for display, then the latest revision.\<close>

definition select_latest :: "pyval \<Rightarrow> py_exc + (pyval \<times> pyval list)" where
  "select_latest revisions =
     (case existing_revision_names revisions of
        Inl e \<Rightarrow> Inl e
      | Inr names \<Rightarrow>
          (case latest_revision revisions of
             Inl e \<Rightarrow> Inl e
           | Inr latest \<Rightarrow> Inr (latest, names)))"

text \<open>Lines 55 to 58: the new traffic configuration.\<close>

definition new_traffic :: "pyval \<Rightarrow> pyval" where
  "new_traffic latest =
     PList [PDict (fmap_of_list [(''revisionName'', latest), (''percent'', PInt 100)])]"

section \<open>Patching the exported document\<close>

text \<open>
  The object that a value of the document denotes: the node of the store for
  a reference, the value itself otherwise. A reference to nothing does not
  come out of a parser; it is read as \<^verbatim>\<open>None\<close>.
\<close>

definition node_of :: "(nat, yval) fmap \<Rightarrow> yval \<Rightarrow> yval" where
  "node_of st v =
     (case v of
        YRef a \<Rightarrow> (case fmlookup st a of None \<Rightarrow> YNone | Some x \<Rightarrow> x)
      | _ \<Rightarrow> v)"

text \<open>
  \<^verbatim>\<open>x[k]\<close> in the document, for a string \<^verbatim>\<open>k\<close>: the value under the key when
  \<^verbatim>\<open>x\<close> is a dictionary, \<^verbatim>\<open>KeyError\<close> when the key is absent, \<^verbatim>\<open>TypeError\<close> on
  every other object.
\<close>

definition get_item :: "(nat, yval) fmap \<Rightarrow> yval \<Rightarrow> string \<Rightarrow> py_exc + yval" where
  "get_item st v k =
     (case node_of st v of
        YDict m \<Rightarrow> (case fmlookup m k of None \<Rightarrow> Inl KeyError | Some x \<Rightarrow> Inr x)
      | _ \<Rightarrow> Inl TypeError)"

text \<open>
  \<^verbatim>\<open>x[k] = v\<close> for a string \<^verbatim>\<open>k\<close>: a dictionary gets the entry (replacing the
  one it has under that key); every other object raises \<^verbatim>\<open>TypeError\<close>. The
  dictionary is changed in place: when it is a shared node the store changes,
  and every reference to the node sees the entry; otherwise the changed
  dictionary is returned, to stand where the old one stood.
\<close>

definition set_item ::
  "(nat, yval) fmap \<Rightarrow> yval \<Rightarrow> string \<Rightarrow> yval \<Rightarrow> py_exc + ((nat, yval) fmap \<times> yval)" where
  "set_item st v k x =
     (case v of
        YRef a \<Rightarrow>
          (case node_of st v of
             YDict m \<Rightarrow> Inr (fmupd a (YDict (fmupd k x m)) st, v)
           | _ \<Rightarrow> Inl TypeError)
      | YDict m \<Rightarrow> Inr (st, YDict (fmupd k x m))
      | _ \<Rightarrow> Inl TypeError)"

definition is_shared :: "yval \<Rightarrow> bool" where
  "is_shared v = (case v of YRef a \<Rightarrow> True | _ \<Rightarrow> False)"

text \<open>
  Line 82: \<^verbatim>\<open>service_config['spec']['traffic'] = new_traffic\<close>. The object
  under \<^verbatim>\<open>'spec'\<close> is fetched and changed in place. When it is a shared node,
  the change is in the store and nothing else is written; when it is written
  in place in the document's dictionary, that dictionary holds the changed
  one.
\<close>

definition patch_traffic :: "ydoc \<Rightarrow> pyval \<Rightarrow> py_exc + ydoc" where
  "patch_traffic service_config t =
     (case get_item (shared service_config) (root service_config) ''spec'' of
        Inl e \<Rightarrow> Inl e
      | Inr spec \<Rightarrow>
          (case set_item (shared service_config) spec ''traffic'' (of_pyval t) of
             Inl e \<Rightarrow> Inl e
           | Inr (st, spec') \<Rightarrow>
               if is_shared spec then Inr (service_config\<lparr>shared := st\<rparr>)
               else (case set_item st (root service_config) ''spec'' spec' of
                       Inl e \<Rightarrow> Inl e
                     | Inr (st', root') \<Rightarrow> Inr \<lparr>shared = st', root = root'\<rparr>)))"

text \<open>
  Lines 75 to 86: read the file, parse it, set the traffic, write the
  serialized document back to the same path. An exception before line 85
  leaves the file as it was.
\<close>

definition patch_traffic_file :: "lib \<Rightarrow> pyval \<Rightarrow> files \<Rightarrow> py_exc + files" where
  "patch_traffic_file l t fs =
     (case fmlookup fs export_file of
        None \<Rightarrow> Inl FileNotFoundError
      | Some content \<Rightarrow>
          (case yaml_safe_load l content of
             None \<Rightarrow> Inl YamlError
           | Some service_config \<Rightarrow>
               (case patch_traffic service_config t of
                  Inl e \<Rightarrow> Inl e
                | Inr service_config' \<Rightarrow>
                    Inr (fmupd export_file (yaml_dump l service_config') fs))))"

text \<open>The value of \<^verbatim>\<open>spec.traffic\<close> in a document, when it has one.\<close>

definition traffic_of :: "ydoc \<Rightarrow> yval option" where
  "traffic_of d =
     (case get_item (shared d) (root d) ''spec'' of
        Inl e \<Rightarrow> None
      | Inr spec \<Rightarrow>
          (case get_item (shared d) spec ''traffic'' of Inl e \<Rightarrow> None | Inr t \<Rightarrow> Some t))"

text \<open>
  The field of a document at a path of keys, as \<^verbatim>\<open>d[k1][k2]...\<close> reads it.
\<close>

fun field_at :: "(nat, yval) fmap \<Rightarrow> yval \<Rightarrow> string list \<Rightarrow> py_exc + yval" where
  "field_at st v [] = Inr v"
| "field_at st v (k # ks) =
     (case get_item st v k of Inl e \<Rightarrow> Inl e | Inr x \<Rightarrow> field_at st x ks)"

section \<open>The workflow\<close>

text \<open>
  \<^verbatim>\<open>main\<close> is straight-line code with an early return after each call of the
  tool. It is written here as four functions, each the rest of \<^verbatim>\<open>main\<close> from
  one comment of the source on. Lines 88 to 104, ``Apply the new
  configuration'':
\<close>

definition apply_configuration :: "lib \<Rightarrow> tool \<Rightarrow> pyval \<Rightarrow> state \<Rightarrow> outcome \<times> state" where
  "apply_configuration l t latest s =
     (let s1 = print_line ''Applying new traffic configuration...'' s;
          (r, s2) = subprocess_run t replace_cmd s1
      in if returncode r \<noteq> 0
         then (Returned 1, print_line (''Error applying configuration: '' @ stderr r) s2)
         else (Returned 0,
               print_line (''All traffic now routes to: '' @ format_value l latest)
                 (print_line ''Traffic configuration updated successfully!'' s2)))"

text \<open>Lines 60 to 86, ``Export service configuration'' and ``Read and modify'':\<close>

definition export_service :: "lib \<Rightarrow> tool \<Rightarrow> pyval \<Rightarrow> state \<Rightarrow> outcome \<times> state" where
  "export_service l t latest s =
     (let (r, s1) = subprocess_run t export_cmd s
      in if returncode r \<noteq> 0
         then (Returned 1, print_line (''Error exporting service: '' @ stderr r) s1)
         else (case patch_traffic_file l (new_traffic latest) (files s1) of
                 Inl e \<Rightarrow> (Raised e, s1)
               | Inr fs' \<Rightarrow> apply_configuration l t latest (s1\<lparr>files := fs'\<rparr>)))"

text \<open>Lines 32 to 58, ``Get list of existing revisions'' and ``Get latest revision'':\<close>

definition get_revisions :: "lib \<Rightarrow> tool \<Rightarrow> state \<Rightarrow> outcome \<times> state" where
  "get_revisions l t s =
     (let (r, s1) = subprocess_run t list_cmd s
      in if returncode r \<noteq> 0
         then (Returned 1, print_line (''Error getting revisions: '' @ stderr r) s1)
         else (case json_loads l (stdout r) of
                 None \<Rightarrow> (Raised JSONDecodeError, s1)
               | Some revisions \<Rightarrow>
                   (case select_latest revisions of
                      Inl e \<Rightarrow> (Raised e, s1)
                    | Inr (latest, names) \<Rightarrow>
                        export_service l t latest
                          (print_line (''Existing revisions: '' @ py_str l (PList names))
                             (print_line (''Latest revision: '' @ format_value l latest) s1)))))"

text \<open>
  Lines 11 to 30, and the whole of \<^verbatim>\<open>main\<close>: a run starts with the files it
  finds, nothing printed and no call made. The document parsed at line 30 is
  bound to \<^verbatim>\<open>service\<close> and the rest of \<^verbatim>\<open>main\<close> does not mention it.
\<close>

definition initial :: "files \<Rightarrow> state" where
  "initial fs = \<lparr>files = fs, printed = [], calls = []\<rparr>"

definition main :: "lib \<Rightarrow> tool \<Rightarrow> files \<Rightarrow> outcome \<times> state" where
  "main l t fs =
     (let s0 = print_line (''Fixing traffic for '' @ service_name @ '' in '' @ region @ ''...'')
                 (initial fs);
          (r, s1) = subprocess_run t describe_cmd s0
      in if returncode r \<noteq> 0
         then (Returned 1, print_line (''Error getting service: '' @ stderr r) s1)
         else (case json_loads l (stdout r) of
                 None \<Rightarrow> (Raised JSONDecodeError, s1)
               | Some service \<Rightarrow> get_revisions l t s1))"

section \<open>Notions used in the statements\<close>

text \<open>
  A revision, as the listing returns it, is a dictionary with a dictionary
  under \<^verbatim>\<open>metadata\<close> that has a \<^verbatim>\<open>name\<close>.
\<close>

definition is_revision :: "pyval \<Rightarrow> bool" where
  "is_revision r = (case metadata_name r of Inl e \<Rightarrow> False | Inr n \<Rightarrow> True)"

text \<open>
  The same tool, except that the call with the argument vector \<open>cmd\<close> writes
  the text \<open>x\<close> to its standard output: its exit status, its error stream and
  what it does to the files are unchanged.
\<close>

definition with_stdout :: "tool \<Rightarrow> string list \<Rightarrow> string \<Rightarrow> tool" where
  "with_stdout t cmd x =
     (\<lambda>c fs. if c = cmd then (case t c fs of (r, fs') \<Rightarrow> (r\<lparr>stdout := x\<rparr>, fs')) else t c fs)"

text \<open>The text that starts the message printed when the \<open>i\<close>-th call fails.\<close>

definition error_messages :: "string list" where
  "error_messages =
     [''Error getting service: '', ''Error getting revisions: '',
      ''Error exporting service: '', ''Error applying configuration: '']"

section \<open>A concrete environment\<close>

text \<open>
  Three revisions, listed most recent first, and a service whose exported
  document still names a revision that is gone. The library functions are
  given on the texts of this environment only.
\<close>

definition revision_named :: "string \<Rightarrow> pyval" where
  "revision_named n =
     PDict (fmap_of_list [(''metadata'', PDict (fmap_of_list [(''name'', PStr n)]))])"

definition example_revisions :: pyval where
  "example_revisions =
     PList [revision_named ''rev-003'', revision_named ''rev-002'', revision_named ''rev-001'']"

definition example_document :: pyval where
  "example_document =
     PDict (fmap_of_list
       [(''kind'', PStr ''Service''),
        (''metadata'', PDict (fmap_of_list [(''name'', PStr ''prop-management'')]))])"

text \<open>The exported document, in which no node is shared, before and after the patch.\<close>

definition example_export :: ydoc where
  "example_export =
     \<lparr>shared = fmempty,
      root = YDict (fmap_of_list
        [(''spec'', YDict (fmap_of_list
            [(''traffic'', YList [YDict (fmap_of_list
                [(''revisionName'', YStr ''rev-000''), (''percent'', YInt 100)])]),
             (''template'', YDict (fmap_of_list [(''image'', YStr ''app:3'')]))])),
         (''kind'', YStr ''Service''),
         (''metadata'', YDict (fmap_of_list [(''name'', YStr ''prop-management'')]))])\<rparr>"

definition example_patched :: ydoc where
  "example_patched =
     \<lparr>shared = fmempty,
      root = YDict (fmap_of_list
        [(''spec'', YDict (fmap_of_list
            [(''traffic'', YList [YDict (fmap_of_list
                [(''revisionName'', YStr ''rev-003''), (''percent'', YInt 100)])]),
             (''template'', YDict (fmap_of_list [(''image'', YStr ''app:3'')]))])),
         (''kind'', YStr ''Service''),
         (''metadata'', YDict (fmap_of_list [(''name'', YStr ''prop-management'')]))])\<rparr>"

text \<open>
  A document in which \<^verbatim>\<open>spec\<close> is an alias of the node anchored at
  \<^verbatim>\<open>backup\<close> (\<^verbatim>\<open>backup: &s {template: {image: app:3}}\<close>, then \<^verbatim>\<open>spec: *s\<close>),
  before and after the patch.
\<close>

definition aliased_document :: ydoc where
  "aliased_document =
     \<lparr>shared = fmap_of_list
        [(0, YDict (fmap_of_list
            [(''template'', YDict (fmap_of_list [(''image'', YStr ''app:3'')]))]))],
      root = YDict (fmap_of_list [(''spec'', YRef 0), (''backup'', YRef 0)])\<rparr>"

definition aliased_patched :: ydoc where
  "aliased_patched =
     \<lparr>shared = fmap_of_list
        [(0, YDict (fmap_of_list
            [(''traffic'', YList [YDict (fmap_of_list
                [(''revisionName'', YStr ''rev-003''), (''percent'', YInt 100)])]),
             (''template'', YDict (fmap_of_list [(''image'', YStr ''app:3'')]))]))],
      root = YDict (fmap_of_list [(''spec'', YRef 0), (''backup'', YRef 0)])\<rparr>"

definition example_lib :: lib where
  "example_lib =
     \<lparr>json_loads = (\<lambda>s. if s = ''service-json'' then Some example_document
                         else if s = ''other-service-json'' then Some (PDict fmempty)
                         else if s = ''revisions-json'' then Some example_revisions
                         else if s = ''one-revision-json'' then Some (PList [revision_named ''rev-003''])
                         else if s = ''[]'' then Some (PList [])
                         else None),
      yaml_safe_load = (\<lambda>s. if s = ''exported-text'' then Some example_export
                             else if s = ''patched-text'' then Some example_patched
                             else if s = ''aliased-text'' then Some aliased_document
                             else if s = ''aliased-patched-text'' then Some aliased_patched
                             else None),
      yaml_dump = (\<lambda>d. if d = example_patched then ''patched-text''
                        else if d = aliased_patched then ''aliased-patched-text''
                        else ''other-text''),
      py_str = (\<lambda>v. ''<value>'')\<rparr>"

text \<open>
  A tool that answers every call with status 0 and touches no file, as a
  tool that only queries the platform does.
\<close>

definition example_tool :: tool where
  "example_tool cmd fs =
     (if cmd = describe_cmd then (\<lparr>returncode = 0, stdout = ''service-json'', stderr = []\<rparr>, fs)
      else if cmd = list_cmd then (\<lparr>returncode = 0, stdout = ''revisions-json'', stderr = []\<rparr>, fs)
      else if cmd = export_cmd then (\<lparr>returncode = 0, stdout = ''exported-text'', stderr = []\<rparr>, fs)
      else (\<lparr>returncode = 0, stdout = [], stderr = []\<rparr>, fs))"

text \<open>The same tool when the listing fails, and when the replace call fails.\<close>

definition failing_list_tool :: tool where
  "failing_list_tool cmd fs =
     (if cmd = list_cmd
      then (\<lparr>returncode = 1, stdout = [], stderr = ''service not found''\<rparr>, fs)
      else example_tool cmd fs)"

definition failing_replace_tool :: tool where
  "failing_replace_tool cmd fs =
     (if cmd = replace_cmd
      then (\<lparr>returncode = 1, stdout = [], stderr = ''permission denied''\<rparr>, fs)
      else example_tool cmd fs)"

text \<open>File systems in which the export file is there already.\<close>

definition example_files :: files where
  "example_files = fmap_of_list [(export_file, ''exported-text'')]"

definition aliased_files :: files where
  "aliased_files = fmap_of_list [(export_file, ''aliased-text'')]"

section \<open>Properties\<close>

lemma cmds_neq [simp]:
  "describe_cmd \<noteq> list_cmd" "describe_cmd \<noteq> export_cmd" "describe_cmd \<noteq> replace_cmd"
  "list_cmd \<noteq> describe_cmd" "list_cmd \<noteq> export_cmd" "list_cmd \<noteq> replace_cmd"
  "export_cmd \<noteq> describe_cmd" "export_cmd \<noteq> list_cmd" "export_cmd \<noteq> replace_cmd"
  "replace_cmd \<noteq> describe_cmd" "replace_cmd \<noteq> list_cmd" "replace_cmd \<noteq> export_cmd"
  by (simp_all add: describe_cmd_def list_cmd_def export_cmd_def replace_cmd_def)

lemma subscript_Inr: "subscript d k = Inr v \<longleftrightarrow> (\<exists>m. d = PDict m \<and> fmlookup m k = Some v)"
  by (cases d) (auto split: option.splits)

lemma of_pyval_new_traffic:
  "of_pyval (new_traffic n) =
     YList [YDict (fmap_of_list [(''revisionName'', of_pyval n), (''percent'', YInt 100)])]"
  by (simp add: new_traffic_def fmmap_fmupd)

text \<open>
  The four ways in which the patch succeeds: the document's dictionary and
  the dictionary under \<^verbatim>\<open>spec\<close> are each written in place or a shared node.
\<close>

lemma patch_cases [consumes 1, case_names Both Root Spec Neither]:
  assumes "patch_traffic d t = Inr d'"
  obtains
    (Both) m sp where "root d = YDict m" "fmlookup m ''spec'' = Some (YDict sp)"
      "d' = \<lparr>shared = shared d,
             root = YDict (fmupd ''spec'' (YDict (fmupd ''traffic'' (of_pyval t) sp)) m)\<rparr>"
  | (Root) m b sp where "root d = YDict m" "fmlookup m ''spec'' = Some (YRef b)"
      "fmlookup (shared d) b = Some (YDict sp)"
      "d' = d\<lparr>shared := fmupd b (YDict (fmupd ''traffic'' (of_pyval t) sp)) (shared d)\<rparr>"
  | (Spec) a m sp where "root d = YRef a" "fmlookup (shared d) a = Some (YDict m)"
      "fmlookup m ''spec'' = Some (YDict sp)"
      "d' = \<lparr>shared = fmupd a (YDict (fmupd ''spec'' (YDict (fmupd ''traffic'' (of_pyval t) sp)) m))
                (shared d), root = YRef a\<rparr>"
  | (Neither) a m b sp where "root d = YRef a" "fmlookup (shared d) a = Some (YDict m)"
      "fmlookup m ''spec'' = Some (YRef b)" "fmlookup (shared d) b = Some (YDict sp)"
      "d' = d\<lparr>shared := fmupd b (YDict (fmupd ''traffic'' (of_pyval t) sp)) (shared d)\<rparr>"
  using assms
  unfolding patch_traffic_def get_item_def set_item_def node_of_def is_shared_def
  by (auto split: sum.splits yval.splits option.splits if_splits prod.splits)

lemma patch_traffic_unshared:
  assumes "root d = YDict m" and "fmlookup m ''spec'' = Some (YDict sp)"
  shows "patch_traffic d t =
           Inr \<lparr>shared = shared d,
                root = YDict (fmupd ''spec'' (YDict (fmupd ''traffic'' (of_pyval t) sp)) m)\<rparr>"
  using assms
  by (simp add: patch_traffic_def get_item_def set_item_def node_of_def is_shared_def)

lemma patch_traffic_succeeds:
  "patch_traffic d t1 = Inr d1 \<Longrightarrow> \<exists>d2. patch_traffic d t2 = Inr d2"
  by (erule patch_cases)
    (auto simp: patch_traffic_def get_item_def set_item_def node_of_def is_shared_def)

lemma field_at_unshared:
  assumes "root d = YDict m" and "fmlookup m ''spec'' = Some (YDict sp)"
    and "\<not> prefix p [''spec'', ''traffic'']" and "\<not> prefix [''spec'', ''traffic''] p"
  shows "field_at (shared d) (YDict (fmupd ''spec'' (YDict (fmupd ''traffic'' x sp)) m)) p =
         field_at (shared d) (root d) p"
proof (cases p)
  case Nil
  with assms show ?thesis by simp
next
  case (Cons k ks)
  note p = this
  show ?thesis
  proof (cases "k = ''spec''")
    case False
    with p assms show ?thesis by (simp add: get_item_def node_of_def)
  next
    case True
    note k = this
    show ?thesis
    proof (cases ks)
      case Nil
      with p k assms show ?thesis by simp
    next
      case (Cons k2 ks2)
      with p k assms have "k2 \<noteq> ''traffic''" by auto
      with p k Cons assms show ?thesis by (simp add: get_item_def node_of_def)
    qed
  qed
qed

lemma names_of_total: "list_all is_revision rs \<Longrightarrow> \<exists>ns. names_of rs = Inr ns"
  by (induction rs) (auto simp: is_revision_def split: sum.splits)

lemma first_of_Inr_list: "existing_revision_names v = Inr ns \<Longrightarrow> first_of v = Inr r \<Longrightarrow> \<exists>rs. v = PList (r # rs)"
  by (cases v rule: first_of.cases) (auto split: if_splits)

lemma select_latest_Inr:
  "select_latest v = Inr (n, ns) \<longleftrightarrow>
     (\<exists>r rs. v = PList (r # rs) \<and> metadata_name r = Inr n \<and> names_of (r # rs) = Inr ns)"
  unfolding select_latest_def latest_revision_def
  by (cases v rule: first_of.cases) (auto split: sum.splits if_splits)

lemma select_latest_revisions:
  assumes "list_all is_revision (r # rs)"
  shows "\<exists>n ns. metadata_name r = Inr n \<and> latest_revision (PList (r # rs)) = Inr n \<and>
           select_latest (PList (r # rs)) = Inr (n, ns)"
proof -
  from assms obtain n where n: "metadata_name r = Inr n"
    by (auto simp: is_revision_def split: sum.splits)
  from names_of_total [OF assms] obtain ns where ns: "names_of (r # rs) = Inr ns" ..
  have "latest_revision (PList (r # rs)) = Inr n"
    by (simp add: latest_revision_def n)
  moreover have "select_latest (PList (r # rs)) = Inr (n, ns)"
    using n ns by (simp add: select_latest_Inr)
  ultimately show ?thesis using n by blast
qed

text \<open>
  Claim C1. For a non-empty list of revisions, the latest revision is the
  \<^verbatim>\<open>metadata.name\<close> of the first element, whatever the other elements and
  however many they are: the selection looks at position 0 only, and the
  step succeeds.
\<close>

theorem select_latest_first:
  assumes "list_all is_revision (r # rs)"
  shows "\<exists>n ns. metadata_name r = Inr n \<and> latest_revision (PList (r # rs)) = Inr n \<and>
           select_latest (PList (r # rs)) = Inr (n, ns)"
  using assms by (rule select_latest_revisions)

lemma traffic_of_patched:
  "patch_traffic d t = Inr d' \<Longrightarrow> traffic_of d' = Some (of_pyval t)"
  by (erule patch_cases) (auto simp: traffic_of_def get_item_def node_of_def)

lemma patch_traffic_twice:
  "patch_traffic d t1 = Inr d1 \<Longrightarrow> patch_traffic d1 t2 = patch_traffic d t2"
  by (erule patch_cases)
    (auto simp: patch_traffic_def get_item_def set_item_def node_of_def is_shared_def)

lemma patch_traffic_file_Inr:
  "patch_traffic_file l t fs = Inr fs' \<longleftrightarrow>
     (\<exists>content d d'. fmlookup fs export_file = Some content \<and> yaml_safe_load l content = Some d \<and>
        patch_traffic d t = Inr d' \<and> fs' = fmupd export_file (yaml_dump l d') fs)"
  unfolding patch_traffic_file_def
  by (auto split: option.splits sum.splits)

text \<open>
  Claim C4, amended. Let the document's dictionary and the dictionary under
  \<^verbatim>\<open>spec\<close> be written in place, that is, shared with no other node of the
  document, and let the serializer and the parser agree on the document that
  is written. Then the patch of the file succeeds, and parsing the rewritten
  file gives the original document with one change: the shared nodes are
  the same, every top-level field other than \<^verbatim>\<open>spec\<close> has its value, every
  field of \<^verbatim>\<open>spec\<close> other than \<^verbatim>\<open>traffic\<close> has its value, \<^verbatim>\<open>spec.traffic\<close> is
  the new traffic, and the field at every path that neither leads to
  \<^verbatim>\<open>spec.traffic\<close> nor goes through it is the same. No other file changes.
\<close>

theorem patch_preserves_other_fields:
  assumes "fmlookup fs export_file = Some content"
    and "yaml_safe_load l content = Some doc"
    and "root doc = YDict m" and "fmlookup m ''spec'' = Some (YDict sp)"
    and "\<And>d. patch_traffic doc t = Inr d \<Longrightarrow> yaml_safe_load l (yaml_dump l d) = Some d"
  shows "\<exists>fs' content' doc' m' sp'.
           patch_traffic_file l t fs = Inr fs' \<and>
           fmlookup fs' export_file = Some content' \<and> yaml_safe_load l content' = Some doc' \<and>
           shared doc' = shared doc \<and>
           root doc' = YDict m' \<and> fmlookup m' ''spec'' = Some (YDict sp') \<and>
           (\<forall>k. k \<noteq> ''spec'' \<longrightarrow> fmlookup m' k = fmlookup m k) \<and>
           (\<forall>k. k \<noteq> ''traffic'' \<longrightarrow> fmlookup sp' k = fmlookup sp k) \<and>
           fmlookup sp' ''traffic'' = Some (of_pyval t) \<and>
           (\<forall>p. \<not> prefix p [''spec'', ''traffic''] \<and> \<not> prefix [''spec'', ''traffic''] p \<longrightarrow>
              field_at (shared doc') (root doc') p = field_at (shared doc) (root doc) p) \<and>
           (\<forall>p. p \<noteq> export_file \<longrightarrow> fmlookup fs' p = fmlookup fs p)"
proof -
  let ?d = "\<lparr>shared = shared doc,
             root = YDict (fmupd ''spec'' (YDict (fmupd ''traffic'' (of_pyval t) sp)) m)\<rparr>"
  have d: "patch_traffic doc t = Inr ?d"
    using assms(3,4) by (rule patch_traffic_unshared)
  then have rt: "yaml_safe_load l (yaml_dump l ?d) = Some ?d" by (rule assms(5))
  have pf: "patch_traffic_file l t fs = Inr (fmupd export_file (yaml_dump l ?d) fs)"
    using assms(1,2) d by (simp add: patch_traffic_file_def)
  have fields: "\<forall>p. \<not> prefix p [''spec'', ''traffic''] \<and> \<not> prefix [''spec'', ''traffic''] p \<longrightarrow>
      field_at (shared ?d) (root ?d) p = field_at (shared doc) (root doc) p"
    using field_at_unshared [OF assms(3,4)] by simp
  show ?thesis
    using pf rt fields by (intro exI [of _ "fmupd export_file (yaml_dump l ?d) fs"]
      exI [of _ "yaml_dump l ?d"] exI [of _ ?d]
      exI [of _ "fmupd ''spec'' (YDict (fmupd ''traffic'' (of_pyval t) sp)) m"]
      exI [of _ "fmupd ''traffic'' (of_pyval t) sp"]) simp
qed

text \<open>
  Claim C5. Patching the file for the revision \<open>n1\<close> and then for \<open>n2\<close> is
  patching the original file for \<open>n2\<close>: the traffic is the single entry for
  \<open>n2\<close>, nothing is appended, and for \<open>n2 = n1\<close> the second patch changes
  nothing.
\<close>

theorem patch_traffic_idempotent:
  assumes "fmlookup fs export_file = Some content"
    and "yaml_safe_load l content = Some doc"
    and "patch_traffic_file l (new_traffic n1) fs = Inr fs1"
    and "\<And>d. patch_traffic doc (new_traffic n1) = Inr d \<Longrightarrow> yaml_safe_load l (yaml_dump l d) = Some d"
  shows "\<exists>fs2 d2. patch_traffic_file l (new_traffic n2) fs1 = Inr fs2 \<and>
           patch_traffic doc (new_traffic n2) = Inr d2 \<and>
           fs2 = fmupd export_file (yaml_dump l d2) fs \<and>
           traffic_of d2 =
             Some (YList [YDict (fmap_of_list
               [(''revisionName'', of_pyval n2), (''percent'', YInt 100)])]) \<and>
           (n2 = n1 \<longrightarrow> fs2 = fs1)"
proof -
  from assms(1-3) obtain d1 where d1: "patch_traffic doc (new_traffic n1) = Inr d1"
    and fs1: "fs1 = fmupd export_file (yaml_dump l d1) fs"
    by (auto simp: patch_traffic_file_Inr)
  have rt: "yaml_safe_load l (yaml_dump l d1) = Some d1" using assms(4) d1 .
  from patch_traffic_succeeds [OF d1] obtain d2 where
    d2: "patch_traffic doc (new_traffic n2) = Inr d2" ..
  have "patch_traffic d1 (new_traffic n2) = Inr d2"
    using patch_traffic_twice [OF d1] d2 by simp
  then have "patch_traffic_file l (new_traffic n2) fs1 = Inr (fmupd export_file (yaml_dump l d2) fs)"
    using fs1 rt by (simp add: patch_traffic_file_def)
  moreover have "traffic_of d2 = Some (of_pyval (new_traffic n2))"
    using d2 by (rule traffic_of_patched)
  moreover have "n2 = n1 \<longrightarrow> fmupd export_file (yaml_dump l d2) fs = fs1"
    using d1 d2 fs1 by auto
  ultimately show ?thesis using d2 by (simp add: of_pyval_new_traffic)
qed

text \<open>
  Claim C6. When the listing succeeds with an empty list, the run ends with
  \<^verbatim>\<open>IndexError\<close> and exit status 1 after the two calls describe and list:
  the export and replace calls are not made and no file is written.
\<close>

theorem empty_revision_list_fails:
  assumes "t describe_cmd fs = (r1, fs1)" and "returncode r1 = 0"
    and "json_loads l (stdout r1) = Some service"
    and "t list_cmd fs1 = (r2, fs2)" and "returncode r2 = 0"
    and "json_loads l (stdout r2) = Some (PList [])"
  shows "fst (main l t fs) = Raised IndexError \<and> exit_status (fst (main l t fs)) = 1 \<and>
         map argv (calls (snd (main l t fs))) = [describe_cmd, list_cmd] \<and>
         files (snd (main l t fs)) = fs2"
  using assms
  by (simp add: main_def get_revisions_def subprocess_run_def print_line_def initial_def
        select_latest_def latest_revision_def)

lemmas run_defs = main_def get_revisions_def export_service_def apply_configuration_def
  subprocess_run_def print_line_def initial_def Let_def service_name_def region_def

lemma main_cases [consumes 1, case_names DescribeFailed DescribeInvalid ListFailed ListInvalid
    SelectRaised ExportFailed PatchRaised ApplyFailed Applied]:
  assumes run: "main l t fs = (out, s)"
  obtains
    (DescribeFailed) r1 fs1 where
      "t describe_cmd fs = (r1, fs1)" "returncode r1 \<noteq> 0"
      "out = Returned 1"
      "s = \<lparr>files = fs1,
             printed = [''Fixing traffic for prop-management in europe-west4...'',
                        ''Error getting service: '' @ stderr r1],
             calls = [\<lparr>argv = describe_cmd, files_before = fs, result = r1\<rparr>]\<rparr>"
  | (DescribeInvalid) r1 fs1 where
      "t describe_cmd fs = (r1, fs1)" "returncode r1 = 0" "json_loads l (stdout r1) = None"
      "out = Raised JSONDecodeError"
      "s = \<lparr>files = fs1,
             printed = [''Fixing traffic for prop-management in europe-west4...''],
             calls = [\<lparr>argv = describe_cmd, files_before = fs, result = r1\<rparr>]\<rparr>"
  | (ListFailed) r1 fs1 service r2 fs2 where
      "t describe_cmd fs = (r1, fs1)" "returncode r1 = 0" "json_loads l (stdout r1) = Some service"
      "t list_cmd fs1 = (r2, fs2)" "returncode r2 \<noteq> 0"
      "out = Returned 1"
      "s = \<lparr>files = fs2,
             printed = [''Fixing traffic for prop-management in europe-west4...'',
                        ''Error getting revisions: '' @ stderr r2],
             calls = [\<lparr>argv = describe_cmd, files_before = fs, result = r1\<rparr>,
                      \<lparr>argv = list_cmd, files_before = fs1, result = r2\<rparr>]\<rparr>"
  | (ListInvalid) r1 fs1 service r2 fs2 where
      "t describe_cmd fs = (r1, fs1)" "returncode r1 = 0" "json_loads l (stdout r1) = Some service"
      "t list_cmd fs1 = (r2, fs2)" "returncode r2 = 0" "json_loads l (stdout r2) = None"
      "out = Raised JSONDecodeError"
      "s = \<lparr>files = fs2,
             printed = [''Fixing traffic for prop-management in europe-west4...''],
             calls = [\<lparr>argv = describe_cmd, files_before = fs, result = r1\<rparr>,
                      \<lparr>argv = list_cmd, files_before = fs1, result = r2\<rparr>]\<rparr>"
  | (SelectRaised) r1 fs1 service r2 fs2 revisions e where
      "t describe_cmd fs = (r1, fs1)" "returncode r1 = 0" "json_loads l (stdout r1) = Some service"
      "t list_cmd fs1 = (r2, fs2)" "returncode r2 = 0" "json_loads l (stdout r2) = Some revisions"
      "select_latest revisions = Inl e"
      "out = Raised e"
      "s = \<lparr>files = fs2,
             printed = [''Fixing traffic for prop-management in europe-west4...''],
             calls = [\<lparr>argv = describe_cmd, files_before = fs, result = r1\<rparr>,
                      \<lparr>argv = list_cmd, files_before = fs1, result = r2\<rparr>]\<rparr>"
  | (ExportFailed) r1 fs1 service r2 fs2 revisions latest names r3 fs3 where
      "t describe_cmd fs = (r1, fs1)" "returncode r1 = 0" "json_loads l (stdout r1) = Some service"
      "t list_cmd fs1 = (r2, fs2)" "returncode r2 = 0" "json_loads l (stdout r2) = Some revisions"
      "select_latest revisions = Inr (latest, names)"
      "t export_cmd fs2 = (r3, fs3)" "returncode r3 \<noteq> 0"
      "out = Returned 1"
      "s = \<lparr>files = fs3,
             printed = [''Fixing traffic for prop-management in europe-west4...'',
                        ''Latest revision: '' @ format_value l latest,
                        ''Existing revisions: '' @ py_str l (PList names),
                        ''Error exporting service: '' @ stderr r3],
             calls = [\<lparr>argv = describe_cmd, files_before = fs, result = r1\<rparr>,
                      \<lparr>argv = list_cmd, files_before = fs1, result = r2\<rparr>,
                      \<lparr>argv = export_cmd, files_before = fs2, result = r3\<rparr>]\<rparr>"
  | (PatchRaised) r1 fs1 service r2 fs2 revisions latest names r3 fs3 e where
      "t describe_cmd fs = (r1, fs1)" "returncode r1 = 0" "json_loads l (stdout r1) = Some service"
      "t list_cmd fs1 = (r2, fs2)" "returncode r2 = 0" "json_loads l (stdout r2) = Some revisions"
      "select_latest revisions = Inr (latest, names)"
      "t export_cmd fs2 = (r3, fs3)" "returncode r3 = 0"
      "patch_traffic_file l (new_traffic latest) fs3 = Inl e"
      "out = Raised e"
      "s = \<lparr>files = fs3,
             printed = [''Fixing traffic for prop-management in europe-west4...'',
                        ''Latest revision: '' @ format_value l latest,
                        ''Existing revisions: '' @ py_str l (PList names)],
             calls = [\<lparr>argv = describe_cmd, files_before = fs, result = r1\<rparr>,
                      \<lparr>argv = list_cmd, files_before = fs1, result = r2\<rparr>,
                      \<lparr>argv = export_cmd, files_before = fs2, result = r3\<rparr>]\<rparr>"
  | (ApplyFailed) r1 fs1 service r2 fs2 revisions latest names r3 fs3 fs3' r4 fs4 where
      "t describe_cmd fs = (r1, fs1)" "returncode r1 = 0" "json_loads l (stdout r1) = Some service"
      "t list_cmd fs1 = (r2, fs2)" "returncode r2 = 0" "json_loads l (stdout r2) = Some revisions"
      "select_latest revisions = Inr (latest, names)"
      "t export_cmd fs2 = (r3, fs3)" "returncode r3 = 0"
      "patch_traffic_file l (new_traffic latest) fs3 = Inr fs3'"
      "t replace_cmd fs3' = (r4, fs4)" "returncode r4 \<noteq> 0"
      "out = Returned 1"
      "s = \<lparr>files = fs4,
             printed = [''Fixing traffic for prop-management in europe-west4...'',
                        ''Latest revision: '' @ format_value l latest,
                        ''Existing revisions: '' @ py_str l (PList names),
                        ''Applying new traffic configuration...'',
                        ''Error applying configuration: '' @ stderr r4],
             calls = [\<lparr>argv = describe_cmd, files_before = fs, result = r1\<rparr>,
                      \<lparr>argv = list_cmd, files_before = fs1, result = r2\<rparr>,
                      \<lparr>argv = export_cmd, files_before = fs2, result = r3\<rparr>,
                      \<lparr>argv = replace_cmd, files_before = fs3', result = r4\<rparr>]\<rparr>"
  | (Applied) r1 fs1 service r2 fs2 revisions latest names r3 fs3 fs3' r4 fs4 where
      "t describe_cmd fs = (r1, fs1)" "returncode r1 = 0" "json_loads l (stdout r1) = Some service"
      "t list_cmd fs1 = (r2, fs2)" "returncode r2 = 0" "json_loads l (stdout r2) = Some revisions"
      "select_latest revisions = Inr (latest, names)"
      "t export_cmd fs2 = (r3, fs3)" "returncode r3 = 0"
      "patch_traffic_file l (new_traffic latest) fs3 = Inr fs3'"
      "t replace_cmd fs3' = (r4, fs4)" "returncode r4 = 0"
      "out = Returned 0"
      "s = \<lparr>files = fs4,
             printed = [''Fixing traffic for prop-management in europe-west4...'',
                        ''Latest revision: '' @ format_value l latest,
                        ''Existing revisions: '' @ py_str l (PList names),
                        ''Applying new traffic configuration...'',
                        ''Traffic configuration updated successfully!'',
                        ''All traffic now routes to: '' @ format_value l latest],
             calls = [\<lparr>argv = describe_cmd, files_before = fs, result = r1\<rparr>,
                      \<lparr>argv = list_cmd, files_before = fs1, result = r2\<rparr>,
                      \<lparr>argv = export_cmd, files_before = fs2, result = r3\<rparr>,
                      \<lparr>argv = replace_cmd, files_before = fs3', result = r4\<rparr>]\<rparr>"
proof -
  obtain r1 fs1 where c1: "t describe_cmd fs = (r1, fs1)" by (cases "t describe_cmd fs")
  obtain r2 fs2 where c2: "t list_cmd fs1 = (r2, fs2)" by (cases "t list_cmd fs1")
  obtain r3 fs3 where c3: "t export_cmd fs2 = (r3, fs3)" by (cases "t export_cmd fs2")
  note defs = main_def get_revisions_def export_service_def apply_configuration_def
    subprocess_run_def print_line_def initial_def service_name_def region_def
  show thesis
  proof (cases "returncode r1 = 0")
    case False
    with run c1 show thesis by (intro DescribeFailed [of r1 fs1]) (auto simp: defs)
  next
    case rc1: True
    show thesis
    proof (cases "json_loads l (stdout r1)")
      case None
      with run c1 rc1 show thesis by (intro DescribeInvalid [of r1 fs1]) (auto simp: defs)
    next
      case (Some service)
      note j1 = this
      show thesis
      proof (cases "returncode r2 = 0")
        case False
        with run c1 rc1 j1 c2 show thesis
          by (intro ListFailed [of r1 fs1 service r2 fs2]) (auto simp: defs)
      next
        case rc2: True
        show thesis
        proof (cases "json_loads l (stdout r2)")
          case None
          with run c1 rc1 j1 c2 rc2 show thesis
            by (intro ListInvalid [of r1 fs1 service r2 fs2]) (auto simp: defs)
        next
          case (Some revisions)
          note j2 = this
          show thesis
          proof (cases "select_latest revisions")
            case (Inl e)
            with run c1 rc1 j1 c2 rc2 j2 show thesis
              by (intro SelectRaised [of r1 fs1 service r2 fs2 revisions e]) (auto simp: defs)
          next
            case (Inr p)
            then obtain latest names where sel: "select_latest revisions = Inr (latest, names)"
              by (cases p) simp
            show thesis
            proof (cases "returncode r3 = 0")
              case False
              with run c1 rc1 j1 c2 rc2 j2 sel c3 show thesis
                by (intro ExportFailed [of r1 fs1 service r2 fs2 revisions latest names r3 fs3])
                  (auto simp: defs)
            next
              case rc3: True
              show thesis
              proof (cases "patch_traffic_file l (new_traffic latest) fs3")
                case (Inl e)
                with run c1 rc1 j1 c2 rc2 j2 sel c3 rc3 show thesis
                  by (intro PatchRaised [of r1 fs1 service r2 fs2 revisions latest names r3 fs3 e])
                    (auto simp: defs)
              next
                case (Inr fs3')
                note pf = this
                obtain r4 fs4 where c4: "t replace_cmd fs3' = (r4, fs4)"
                  by (cases "t replace_cmd fs3'")
                show thesis
                proof (cases "returncode r4 = 0")
                  case False
                  with run c1 rc1 j1 c2 rc2 j2 sel c3 rc3 pf c4 show thesis
                    by (intro ApplyFailed
                          [of r1 fs1 service r2 fs2 revisions latest names r3 fs3 fs3' r4 fs4])
                      (auto simp: defs)
                next
                  case True
                  with run c1 rc1 j1 c2 rc2 j2 sel c3 rc3 pf c4 show thesis
                    by (intro Applied
                          [of r1 fs1 service r2 fs2 revisions latest names r3 fs3 fs3' r4 fs4])
                      (auto simp: defs)
                qed
              qed
            qed
          qed
        qed
      qed
    qed
  qed
qed

text \<open>
  Claim C2. In a run whose four calls all return status 0, where the listing
  parses to a non-empty list, \<^verbatim>\<open>main\<close> returns 0 and the file that the
  replace call finds holds the serialized document whose \<^verbatim>\<open>spec.traffic\<close> is
  the single entry for the name of the first listed revision, with percent
  100.
\<close>

theorem successful_run_traffic:
  assumes "main l t fs = (out, s)"
    and "length (calls s) = 4"
    and "\<forall>c \<in> set (calls s). returncode (result c) = 0"
    and "json_loads l (stdout (result (calls s ! 1))) = Some (PList (r # rs))"
  shows "out = Returned 0 \<and> exit_status out = 0 \<and>
         (\<exists>n doc'. metadata_name r = Inr n \<and>
            argv (calls s ! 3) = replace_cmd \<and>
            fmlookup (files_before (calls s ! 3)) export_file = Some (yaml_dump l doc') \<and>
            traffic_of doc' =
              Some (YList [YDict (fmap_of_list
                [(''revisionName'', of_pyval n), (''percent'', YInt 100)])]))"
  using assms
proof (cases rule: main_cases)
  case (Applied r1 fs1 service r2 fs2 revisions latest names r3 fs3 fs3' r4 fs4)
  from Applied assms(4) have "revisions = PList (r # rs)" by simp
  with Applied have n: "metadata_name r = Inr latest" by (simp add: select_latest_Inr)
  from Applied obtain content d d' where "patch_traffic d (new_traffic latest) = Inr d'"
    "fs3' = fmupd export_file (yaml_dump l d') fs3"
    by (auto simp: patch_traffic_file_Inr)
  then have "fmlookup fs3' export_file = Some (yaml_dump l d')"
    "traffic_of d' = Some (of_pyval (new_traffic latest))"
    by (simp_all add: traffic_of_patched)
  with Applied n show ?thesis by (auto simp: of_pyval_new_traffic)
qed simp_all

text \<open>
  Claim C7. Let \<open>r1\<close>, \<open>r2\<close> and \<open>r3\<close> be what the tool answers to describe, list
  and export. The exit status is 0 exactly when four calls were made and all
  returned status 0. A call that returns a non-zero status is the last call
  of the run (nothing is retried, no further call is made), the last line
  printed is the message of that step followed by the error stream of the
  call, and the exit status is 1. In terms of the answers: describe is always
  called; when it answers a non-zero status the run is that call and the
  message; when it succeeds and list answers a non-zero status the run is
  these two calls and the message; likewise for export; and when the file is
  patched, replace is called on the patched file, a non-zero answer gives
  the message and exit status 1, and the answer 0 gives exit status 0.
\<close>

theorem exit_status_zero_iff:
  assumes "main l t fs = (out, s)"
    and "t describe_cmd fs = (r1, fs1)"
    and "t list_cmd fs1 = (r2, fs2)"
    and "t export_cmd fs2 = (r3, fs3)"
  shows "(exit_status out = 0 \<longleftrightarrow>
            length (calls s) = 4 \<and> (\<forall>c \<in> set (calls s). returncode (result c) = 0)) \<and>
         (\<forall>i < length (calls s). returncode (result (calls s ! i)) \<noteq> 0 \<longrightarrow>
            Suc i = length (calls s) \<and> out = Returned 1 \<and> exit_status out = 1 \<and>
            last (printed s) = error_messages ! i @ stderr (result (calls s ! i))) \<and>
         distinct (map argv (calls s)) \<and>
         take 1 (calls s) = [\<lparr>argv = describe_cmd, files_before = fs, result = r1\<rparr>] \<and>
         (returncode r1 \<noteq> 0 \<longrightarrow>
            out = Returned 1 \<and> exit_status out = 1 \<and>
            calls s = [\<lparr>argv = describe_cmd, files_before = fs, result = r1\<rparr>] \<and>
            last (printed s) = ''Error getting service: '' @ stderr r1) \<and>
         (returncode r1 = 0 \<and> json_loads l (stdout r1) \<noteq> None \<and> returncode r2 \<noteq> 0 \<longrightarrow>
            out = Returned 1 \<and> exit_status out = 1 \<and>
            calls s = [\<lparr>argv = describe_cmd, files_before = fs, result = r1\<rparr>,
                       \<lparr>argv = list_cmd, files_before = fs1, result = r2\<rparr>] \<and>
            last (printed s) = ''Error getting revisions: '' @ stderr r2) \<and>
         (\<forall>revisions latest names.
            returncode r1 = 0 \<and> json_loads l (stdout r1) \<noteq> None \<and> returncode r2 = 0 \<and>
            json_loads l (stdout r2) = Some revisions \<and>
            select_latest revisions = Inr (latest, names) \<longrightarrow>
            (returncode r3 \<noteq> 0 \<longrightarrow>
               out = Returned 1 \<and> exit_status out = 1 \<and>
               calls s = [\<lparr>argv = describe_cmd, files_before = fs, result = r1\<rparr>,
                          \<lparr>argv = list_cmd, files_before = fs1, result = r2\<rparr>,
                          \<lparr>argv = export_cmd, files_before = fs2, result = r3\<rparr>] \<and>
               last (printed s) = ''Error exporting service: '' @ stderr r3) \<and>
            (\<forall>fs3' r4 fs4.
               returncode r3 = 0 \<and> patch_traffic_file l (new_traffic latest) fs3 = Inr fs3' \<and>
               t replace_cmd fs3' = (r4, fs4) \<longrightarrow>
               calls s = [\<lparr>argv = describe_cmd, files_before = fs, result = r1\<rparr>,
                          \<lparr>argv = list_cmd, files_before = fs1, result = r2\<rparr>,
                          \<lparr>argv = export_cmd, files_before = fs2, result = r3\<rparr>,
                          \<lparr>argv = replace_cmd, files_before = fs3', result = r4\<rparr>] \<and>
               (returncode r4 \<noteq> 0 \<longrightarrow>
                  out = Returned 1 \<and> exit_status out = 1 \<and>
                  last (printed s) = ''Error applying configuration: '' @ stderr r4) \<and>
               (returncode r4 = 0 \<longrightarrow> out = Returned 0 \<and> exit_status out = 0)))"
  using assms
  by (cases rule: main_cases) (simp_all add: error_messages_def less_Suc_eq)

text \<open>
  Claim C8. The calls of a run are an initial part of describe, list, export,
  replace, in this order. A call is made only when the call before it
  returned status 0 and its output was parsed; the replace call is made only
  after describe, list, the selection of the latest revision, export and the
  patch of the file have all succeeded, and it finds the patched file. Until
  the patch the script writes no file.
\<close>

theorem steps_in_order:
  assumes "main l t fs = (out, s)"
  shows "prefix (map argv (calls s)) [describe_cmd, list_cmd, export_cmd, replace_cmd] \<and>
         (1 < length (calls s) \<longrightarrow>
            returncode (result (calls s ! 0)) = 0 \<and>
            (\<exists>service. json_loads l (stdout (result (calls s ! 0))) = Some service)) \<and>
         (2 < length (calls s) \<longrightarrow>
            returncode (result (calls s ! 1)) = 0 \<and>
            (\<exists>revisions latest names.
               json_loads l (stdout (result (calls s ! 1))) = Some revisions \<and>
               select_latest revisions = Inr (latest, names))) \<and>
         (replace_cmd \<in> set (map argv (calls s)) \<longrightarrow>
            (\<exists>c1 c2 c3 c4 service revisions latest names.
               calls s = [c1, c2, c3, c4] \<and>
               files_before c1 = fs \<and> returncode (result c1) = 0 \<and>
               json_loads l (stdout (result c1)) = Some service \<and>
               files_before c2 = snd (t describe_cmd fs) \<and> returncode (result c2) = 0 \<and>
               json_loads l (stdout (result c2)) = Some revisions \<and>
               select_latest revisions = Inr (latest, names) \<and>
               files_before c3 = snd (t list_cmd (files_before c2)) \<and>
               returncode (result c3) = 0 \<and>
               patch_traffic_file l (new_traffic latest) (snd (t export_cmd (files_before c3))) =
                 Inr (files_before c4)))"
  using assms
  by (cases rule: main_cases) simp_all

lemma with_stdout_other [simp]: "c \<noteq> cmd \<Longrightarrow> with_stdout t cmd x c fs = t c fs"
  by (simp add: with_stdout_def)

lemma with_stdout_same [simp]:
  "t cmd fs = (r, fs') \<Longrightarrow> with_stdout t cmd x cmd fs = (r\<lparr>stdout := x\<rparr>, fs')"
  by (simp add: with_stdout_def)

text \<open>
  Claim C10. Let the first describe call succeed with a JSON document. A run
  in which that call returns another text \<open>x\<close> instead, everything else being
  equal, ends with \<^verbatim>\<open>JSONDecodeError\<close> after that call when \<open>x\<close> is not
  JSON; when it is, the outcome, the files, all the printed lines and every
  later call are those of the first run.
\<close>

theorem describe_output_unused:
  assumes "t describe_cmd fs = (r1, fs1)" and "returncode r1 = 0"
    and "json_loads l (stdout r1) = Some d1"
    and "main l t fs = (out, s)"
    and "main l (with_stdout t describe_cmd x) fs = (out', s')"
  shows "case json_loads l x of
           None \<Rightarrow> out' = Raised JSONDecodeError \<and> map argv (calls s') = [describe_cmd]
         | Some d2 \<Rightarrow>
             out' = out \<and> files s' = files s \<and> printed s' = printed s \<and>
             tl (calls s') = tl (calls s) \<and>
             hd (calls s') = (hd (calls s))\<lparr>result := (result (hd (calls s)))\<lparr>stdout := x\<rparr>\<rparr>"
  using assms(4) assms(1-3,5)
  by (cases rule: main_cases)
    (auto simp: run_defs split: option.splits)

text \<open>
  Claim C9. Two runs that differ only in the text of the listing, both
  texts being non-empty lists of revisions whose first elements have the
  same name, select the same revision, end with the same outcome and the
  same files, and make the same calls on the same files (so the patched
  document that replace finds is the same); the printed lines differ at most
  in the line of the existing revisions.
\<close>

theorem names_only_displayed:
  assumes "t describe_cmd fs = (r1, fs1)" and "t list_cmd fs1 = (r2, fs2)"
    and "json_loads l (stdout r2) = Some (PList (a # as))"
    and "json_loads l x = Some (PList (b # bs))"
    and "list_all is_revision (a # as)" and "list_all is_revision (b # bs)"
    and "metadata_name a = metadata_name b"
    and "main l t fs = (out, s)"
    and "main l (with_stdout t list_cmd x) fs = (out', s')"
  shows "out' = out \<and> files s' = files s \<and>
         map argv (calls s') = map argv (calls s) \<and>
         map files_before (calls s') = map files_before (calls s) \<and>
         (\<forall>i < length (calls s). i \<noteq> 1 \<longrightarrow> calls s' ! i = calls s ! i) \<and>
         (\<exists>line. printed s' = (printed s)[2 := line]) \<and>
         (\<exists>n ns ns'. select_latest (PList (a # as)) = Inr (n, ns) \<and>
            select_latest (PList (b # bs)) = Inr (n, ns'))"
proof -
  from select_latest_revisions [OF assms(5)] obtain n ns where
    a: "metadata_name a = Inr n" "select_latest (PList (a # as)) = Inr (n, ns)" by blast
  from select_latest_revisions [OF assms(6)] obtain n' ns' where
    b: "metadata_name b = Inr n'" "select_latest (PList (b # bs)) = Inr (n', ns')" by blast
  from a b assms(7) have [simp]: "n' = n" by simp
  have sel: "\<exists>n ns ns'. select_latest (PList (a # as)) = Inr (n, ns) \<and>
            select_latest (PList (b # bs)) = Inr (n, ns')"
    using a b by auto
  have rest: "out' = out \<and> files s' = files s \<and>
         map argv (calls s') = map argv (calls s) \<and>
         map files_before (calls s') = map files_before (calls s) \<and>
         (\<forall>i < length (calls s). i \<noteq> 1 \<longrightarrow> calls s' ! i = calls s ! i) \<and>
         (\<exists>line. printed s' = (printed s)[2 := line])"
    using assms(8) assms(1-4,9) a b
    by (cases rule: main_cases)
      (auto simp: run_defs less_Suc_eq split: option.splits sum.splits)
  from rest sel show ?thesis by blast
qed

text \<open>
  The text that the export call returns is never used: \<^verbatim>\<open>main\<close> captures it
  and reads the file instead.
\<close>

lemma export_stdout_unused:
  assumes "main l t fs = (out, s)"
    and "main l (with_stdout t export_cmd x) fs = (out', s')"
  shows "out' = out \<and> files s' = files s \<and> printed s' = printed s \<and>
         map argv (calls s') = map argv (calls s) \<and>
         map files_before (calls s') = map files_before (calls s)"
  using assms
  by (cases rule: main_cases)
    (auto simp: run_defs split: option.splits sum.splits)

lemma example_tool_simps [simp]:
  "example_tool describe_cmd fs = (\<lparr>returncode = 0, stdout = ''service-json'', stderr = []\<rparr>, fs)"
  "example_tool list_cmd fs = (\<lparr>returncode = 0, stdout = ''revisions-json'', stderr = []\<rparr>, fs)"
  "example_tool export_cmd fs = (\<lparr>returncode = 0, stdout = ''exported-text'', stderr = []\<rparr>, fs)"
  "example_tool replace_cmd fs = (\<lparr>returncode = 0, stdout = [], stderr = []\<rparr>, fs)"
  by (simp_all add: example_tool_def)

lemma failing_list_tool_simps [simp]:
  "failing_list_tool describe_cmd fs = (\<lparr>returncode = 0, stdout = ''service-json'', stderr = []\<rparr>, fs)"
  "failing_list_tool list_cmd fs = (\<lparr>returncode = 1, stdout = [], stderr = ''service not found''\<rparr>, fs)"
  "failing_list_tool export_cmd fs = (\<lparr>returncode = 0, stdout = ''exported-text'', stderr = []\<rparr>, fs)"
  by (simp_all add: failing_list_tool_def)

lemma failing_replace_tool_simps [simp]:
  "failing_replace_tool describe_cmd fs = (\<lparr>returncode = 0, stdout = ''service-json'', stderr = []\<rparr>, fs)"
  "failing_replace_tool list_cmd fs = (\<lparr>returncode = 0, stdout = ''revisions-json'', stderr = []\<rparr>, fs)"
  "failing_replace_tool export_cmd fs = (\<lparr>returncode = 0, stdout = ''exported-text'', stderr = []\<rparr>, fs)"
  "failing_replace_tool replace_cmd fs = (\<lparr>returncode = 1, stdout = [], stderr = ''permission denied''\<rparr>, fs)"
  by (simp_all add: failing_replace_tool_def)

lemma aliased_patched_neq: "aliased_patched \<noteq> example_patched"
proof
  assume "aliased_patched = example_patched"
  then have "fmlookup (shared aliased_patched) 0 = fmlookup (shared example_patched) 0"
    by simp
  then show False
    by (simp add: aliased_patched_def example_patched_def)
qed

lemma example_lib_simps [simp]:
  "json_loads example_lib ''service-json'' = Some example_document"
  "json_loads example_lib ''other-service-json'' = Some (PDict fmempty)"
  "json_loads example_lib ''revisions-json'' = Some example_revisions"
  "json_loads example_lib ''one-revision-json'' = Some (PList [revision_named ''rev-003''])"
  "json_loads example_lib ''[]'' = Some (PList [])"
  "yaml_safe_load example_lib ''exported-text'' = Some example_export"
  "yaml_safe_load example_lib ''patched-text'' = Some example_patched"
  "yaml_safe_load example_lib ''aliased-text'' = Some aliased_document"
  "yaml_safe_load example_lib ''aliased-patched-text'' = Some aliased_patched"
  "yaml_dump example_lib example_patched = ''patched-text''"
  "yaml_dump example_lib aliased_patched = ''aliased-patched-text''"
  "py_str example_lib v = ''<value>''"
  by (simp_all add: example_lib_def aliased_patched_neq)

lemma metadata_name_revision_named [simp]: "metadata_name (revision_named n) = Inr (PStr n)"
  by (simp add: metadata_name_def revision_named_def)

lemma is_revision_revision_named [simp]: "is_revision (revision_named n)"
  by (simp add: is_revision_def)

lemma select_latest_example [simp]:
  "select_latest example_revisions =
     Inr (PStr ''rev-003'', [PStr ''rev-003'', PStr ''rev-002'', PStr ''rev-001''])"
  by (simp add: select_latest_def example_revisions_def latest_revision_def)

lemma select_latest_one [simp]:
  "select_latest (PList [revision_named ''rev-003'']) = Inr (PStr ''rev-003'', [PStr ''rev-003''])"
  by (simp add: select_latest_def latest_revision_def)

lemma patch_traffic_example [simp]:
  "patch_traffic example_export (new_traffic (PStr ''rev-003'')) = Inr example_patched"
  by (simp add: patch_traffic_def get_item_def set_item_def node_of_def is_shared_def
        example_export_def example_patched_def new_traffic_def fmmap_fmupd)

lemma patch_traffic_aliased [simp]:
  "patch_traffic aliased_document (new_traffic (PStr ''rev-003'')) = Inr aliased_patched"
  by (simp add: patch_traffic_def get_item_def set_item_def node_of_def is_shared_def
        aliased_document_def aliased_patched_def new_traffic_def fmmap_fmupd)

lemma patch_traffic_file_example [simp]:
  "patch_traffic_file example_lib (new_traffic (PStr ''rev-003'')) example_files =
     Inr (fmap_of_list [(export_file, ''patched-text'')])"
  by (simp add: patch_traffic_file_def example_files_def)

lemma patch_traffic_file_aliased [simp]:
  "patch_traffic_file example_lib (new_traffic (PStr ''rev-003'')) aliased_files =
     Inr (fmap_of_list [(export_file, ''aliased-patched-text'')])"
  by (simp add: patch_traffic_file_def aliased_files_def)

lemma patch_traffic_file_missing [simp]:
  "patch_traffic_file l t fmempty = Inl FileNotFoundError"
  by (simp add: patch_traffic_file_def)

lemma example_run:
  "main example_lib example_tool example_files =
     (Returned 0,
      \<lparr>files = fmap_of_list [(export_file, ''patched-text'')],
        printed = [''Fixing traffic for prop-management in europe-west4...'',
                   ''Latest revision: rev-003'', ''Existing revisions: <value>'',
                   ''Applying new traffic configuration...'',
                   ''Traffic configuration updated successfully!'',
                   ''All traffic now routes to: rev-003''],
        calls = [\<lparr>argv = describe_cmd, files_before = example_files,
                   result = \<lparr>returncode = 0, stdout = ''service-json'', stderr = []\<rparr>\<rparr>,
                 \<lparr>argv = list_cmd, files_before = example_files,
                   result = \<lparr>returncode = 0, stdout = ''revisions-json'', stderr = []\<rparr>\<rparr>,
                 \<lparr>argv = export_cmd, files_before = example_files,
                   result = \<lparr>returncode = 0, stdout = ''exported-text'', stderr = []\<rparr>\<rparr>,
                 \<lparr>argv = replace_cmd, files_before = fmap_of_list [(export_file, ''patched-text'')],
                   result = \<lparr>returncode = 0, stdout = [], stderr = []\<rparr>\<rparr>]\<rparr>)"
  by (simp add: run_defs format_value_def)

text \<open>
  Claim C3. The export call succeeds and returns the exported text, but the
  script does not write it to \<^verbatim>\<open>/tmp/service.yaml\<close>: the redirection is two
  more arguments of the call. With a tool that writes no file and no export
  file left by an earlier command, the run ends at line 76 with
  \<^verbatim>\<open>FileNotFoundError\<close>.
\<close>

theorem export_output_not_persisted:
  "main example_lib example_tool fmempty =
     (Raised FileNotFoundError,
      \<lparr>files = fmempty,
        printed = [''Fixing traffic for prop-management in europe-west4...'',
                   ''Latest revision: rev-003'', ''Existing revisions: <value>''],
        calls = [\<lparr>argv = describe_cmd, files_before = fmempty,
                   result = \<lparr>returncode = 0, stdout = ''service-json'', stderr = []\<rparr>\<rparr>,
                 \<lparr>argv = list_cmd, files_before = fmempty,
                   result = \<lparr>returncode = 0, stdout = ''revisions-json'', stderr = []\<rparr>\<rparr>,
                 \<lparr>argv = export_cmd, files_before = fmempty,
                   result = \<lparr>returncode = 0, stdout = ''exported-text'', stderr = []\<rparr>\<rparr>]\<rparr>)"
  by (simp add: run_defs format_value_def)

text \<open>
  Claim C4 as it is stated, for every document that parses, fails on a
  document with an alias. In the document \<^verbatim>\<open>backup: &s {...}\<close>, \<^verbatim>\<open>spec: *s\<close>
  the dictionary under \<^verbatim>\<open>spec\<close> is the dictionary under \<^verbatim>\<open>backup\<close>: the patch
  succeeds, the serializer and the parser agree on the written document, and
  the rewritten file parses to a document in which \<^verbatim>\<open>backup.traffic\<close>, absent
  from the original, is the new traffic.
\<close>

theorem patch_changes_aliased_field:
  "fmlookup aliased_files export_file = Some ''aliased-text'' \<and>
   yaml_safe_load example_lib ''aliased-text'' = Some aliased_document \<and>
   patch_traffic aliased_document (new_traffic (PStr ''rev-003'')) = Inr aliased_patched \<and>
   yaml_safe_load example_lib (yaml_dump example_lib aliased_patched) = Some aliased_patched \<and>
   patch_traffic_file example_lib (new_traffic (PStr ''rev-003'')) aliased_files =
     Inr (fmap_of_list [(export_file, ''aliased-patched-text'')]) \<and>
   yaml_safe_load example_lib ''aliased-patched-text'' = Some aliased_patched \<and>
   field_at (shared aliased_document) (root aliased_document) [''backup'', ''traffic''] =
     Inl KeyError \<and>
   field_at (shared aliased_patched) (root aliased_patched) [''backup'', ''traffic''] =
     Inr (YList [YDict (fmap_of_list
       [(''revisionName'', YStr ''rev-003''), (''percent'', YInt 100)])])"
proof -
  have "fmlookup aliased_files export_file = Some ''aliased-text''"
    by (simp add: aliased_files_def)
  moreover have "field_at (shared aliased_document) (root aliased_document)
      [''backup'', ''traffic''] = Inl KeyError"
    by (simp add: aliased_document_def get_item_def node_of_def)
  moreover have "field_at (shared aliased_patched) (root aliased_patched)
      [''backup'', ''traffic''] =
     Inr (YList [YDict (fmap_of_list
       [(''revisionName'', YStr ''rev-003''), (''percent'', YInt 100)])])"
    by (simp add: aliased_patched_def get_item_def node_of_def)
  ultimately show ?thesis by simp
qed

lemma failing_list_run:
  "main example_lib failing_list_tool fmempty =
     (Returned 1,
      \<lparr>files = fmempty,
        printed = [''Fixing traffic for prop-management in europe-west4...'',
                   ''Error getting revisions: service not found''],
        calls = [\<lparr>argv = describe_cmd, files_before = fmempty,
                   result = \<lparr>returncode = 0, stdout = ''service-json'', stderr = []\<rparr>\<rparr>,
                 \<lparr>argv = list_cmd, files_before = fmempty,
                   result = \<lparr>returncode = 1, stdout = [], stderr = ''service not found''\<rparr>\<rparr>]\<rparr>)"
  by (simp add: run_defs)

text \<open>The three revisions of the example: the latest is \<^verbatim>\<open>rev-003\<close>.\<close>

theorem select_latest_first_witness:
  "list_all is_revision
     [revision_named ''rev-003'', revision_named ''rev-002'', revision_named ''rev-001''] \<and>
   (\<exists>n ns. metadata_name (revision_named ''rev-003'') = Inr n \<and>
      latest_revision (PList [revision_named ''rev-003'', revision_named ''rev-002'',
        revision_named ''rev-001'']) = Inr n \<and>
      select_latest (PList [revision_named ''rev-003'', revision_named ''rev-002'',
        revision_named ''rev-001'']) = Inr (n, ns)) \<and>
   latest_revision example_revisions = Inr (PStr ''rev-003'')"
proof -
  have h: "list_all is_revision
     [revision_named ''rev-003'', revision_named ''rev-002'', revision_named ''rev-001'']"
    by simp
  show ?thesis
    using h select_latest_first [OF h]
    by (simp add: example_revisions_def)
qed

lemma traffic_of_example_patched:
  "traffic_of example_patched =
     Some (YList [YDict (fmap_of_list
       [(''revisionName'', YStr ''rev-003''), (''percent'', YInt 100)])])"
  by (simp add: traffic_of_def get_item_def node_of_def example_patched_def)

text \<open>The run of the example with the export file in place (scenario A).\<close>

theorem successful_run_traffic_witness:
  "length (calls (snd (main example_lib example_tool example_files))) = 4 \<and>
   map (\<lambda>c. returncode (result c)) (calls (snd (main example_lib example_tool example_files))) =
     [0, 0, 0, 0] \<and>
   json_loads example_lib
     (stdout (result (calls (snd (main example_lib example_tool example_files)) ! 1))) =
     Some (PList [revision_named ''rev-003'', revision_named ''rev-002'', revision_named ''rev-001'']) \<and>
   fst (main example_lib example_tool example_files) = Returned 0 \<and>
   exit_status (fst (main example_lib example_tool example_files)) = 0 \<and>
   fmlookup (files_before (calls (snd (main example_lib example_tool example_files)) ! 3))
     export_file = Some (yaml_dump example_lib example_patched) \<and>
   traffic_of example_patched =
     Some (YList [YDict (fmap_of_list
       [(''revisionName'', YStr ''rev-003''), (''percent'', YInt 100)])])"
  using successful_run_traffic [of example_lib example_tool example_files
      "fst (main example_lib example_tool example_files)"
      "snd (main example_lib example_tool example_files)"
      "revision_named ''rev-003''" "[revision_named ''rev-002'', revision_named ''rev-001'']"]
    traffic_of_example_patched
  by (simp add: example_run example_revisions_def)

text \<open>
  The patch of the example file, in which no node is shared: only \<^verbatim>\<open>spec.traffic\<close> differs
  after the round trip.
\<close>

theorem patch_preserves_other_fields_witness:
  "fmlookup example_files export_file = Some ''exported-text'' \<and>
   yaml_safe_load example_lib ''exported-text'' = Some example_export \<and>
   root example_export = YDict
     (fmap_of_list
        [(''spec'', YDict (fmap_of_list
            [(''traffic'', YList [YDict (fmap_of_list
                [(''revisionName'', YStr ''rev-000''), (''percent'', YInt 100)])]),
             (''template'', YDict (fmap_of_list [(''image'', YStr ''app:3'')]))])),
         (''kind'', YStr ''Service''),
         (''metadata'', YDict (fmap_of_list [(''name'', YStr ''prop-management'')]))]) \<and>
   patch_traffic example_export (new_traffic (PStr ''rev-003'')) = Inr example_patched \<and>
   yaml_safe_load example_lib (yaml_dump example_lib example_patched) = Some example_patched \<and>
   patch_traffic_file example_lib (new_traffic (PStr ''rev-003'')) example_files =
     Inr (fmap_of_list [(export_file, ''patched-text'')]) \<and>
   (\<exists>fs' content' doc' m' sp'.
      patch_traffic_file example_lib (new_traffic (PStr ''rev-003'')) example_files = Inr fs' \<and>
      fmlookup fs' export_file = Some content' \<and>
      yaml_safe_load example_lib content' = Some doc' \<and>
      shared doc' = shared example_export \<and>
      root doc' = YDict m' \<and> fmlookup m' ''spec'' = Some (YDict sp') \<and>
      (\<forall>k. k \<noteq> ''spec'' \<longrightarrow> fmlookup m' k = fmlookup
       (fmap_of_list
        [(''spec'', YDict (fmap_of_list
            [(''traffic'', YList [YDict (fmap_of_list
                [(''revisionName'', YStr ''rev-000''), (''percent'', YInt 100)])]),
             (''template'', YDict (fmap_of_list [(''image'', YStr ''app:3'')]))])),
         (''kind'', YStr ''Service''),
         (''metadata'', YDict (fmap_of_list [(''name'', YStr ''prop-management'')]))]) k) \<and>
      (\<forall>k. k \<noteq> ''traffic'' \<longrightarrow> fmlookup sp' k = fmlookup
       (fmap_of_list
            [(''traffic'', YList [YDict (fmap_of_list
                [(''revisionName'', YStr ''rev-000''), (''percent'', YInt 100)])]),
             (''template'', YDict (fmap_of_list [(''image'', YStr ''app:3'')]))]) k) \<and>
      fmlookup sp' ''traffic'' = Some (of_pyval (new_traffic (PStr ''rev-003''))) \<and>
      (\<forall>p. \<not> prefix p [''spec'', ''traffic''] \<and> \<not> prefix [''spec'', ''traffic''] p \<longrightarrow>
         field_at (shared doc') (root doc') p =
         field_at (shared example_export) (root example_export) p) \<and>
      (\<forall>p. p \<noteq> export_file \<longrightarrow> fmlookup fs' p = fmlookup example_files p))"
proof -
  have h1: "fmlookup example_files export_file = Some ''exported-text''"
    by (simp add: example_files_def)
  have h2: "yaml_safe_load example_lib ''exported-text'' = Some example_export"
    by simp
  have h3: "root example_export = YDict
     (fmap_of_list
        [(''spec'', YDict (fmap_of_list
            [(''traffic'', YList [YDict (fmap_of_list
                [(''revisionName'', YStr ''rev-000''), (''percent'', YInt 100)])]),
             (''template'', YDict (fmap_of_list [(''image'', YStr ''app:3'')]))])),
         (''kind'', YStr ''Service''),
         (''metadata'', YDict (fmap_of_list [(''name'', YStr ''prop-management'')]))])"
    by (simp add: example_export_def)
  have h4: "fmlookup
     (fmap_of_list
        [(''spec'', YDict (fmap_of_list
            [(''traffic'', YList [YDict (fmap_of_list
                [(''revisionName'', YStr ''rev-000''), (''percent'', YInt 100)])]),
             (''template'', YDict (fmap_of_list [(''image'', YStr ''app:3'')]))])),
         (''kind'', YStr ''Service''),
         (''metadata'', YDict (fmap_of_list [(''name'', YStr ''prop-management'')]))]) ''spec'' =
     Some (YDict
     (fmap_of_list
            [(''traffic'', YList [YDict (fmap_of_list
                [(''revisionName'', YStr ''rev-000''), (''percent'', YInt 100)])]),
             (''template'', YDict (fmap_of_list [(''image'', YStr ''app:3'')]))]))"
    by simp
  have h5: "yaml_safe_load example_lib (yaml_dump example_lib d) = Some d"
    if "patch_traffic example_export (new_traffic (PStr ''rev-003'')) = Inr d" for d
    using that by simp
  have p1: "patch_traffic example_export (new_traffic (PStr ''rev-003'')) = Inr example_patched"
    by simp
  have p2: "yaml_safe_load example_lib (yaml_dump example_lib example_patched) =
    Some example_patched"
    by simp
  have p3: "patch_traffic_file example_lib (new_traffic (PStr ''rev-003'')) example_files =
     Inr (fmap_of_list [(export_file, ''patched-text'')])"
    by simp
  have c: "\<exists>fs' content' doc' m' sp'.
      patch_traffic_file example_lib (new_traffic (PStr ''rev-003'')) example_files = Inr fs' \<and>
      fmlookup fs' export_file = Some content' \<and>
      yaml_safe_load example_lib content' = Some doc' \<and>
      shared doc' = shared example_export \<and>
      root doc' = YDict m' \<and> fmlookup m' ''spec'' = Some (YDict sp') \<and>
      (\<forall>k. k \<noteq> ''spec'' \<longrightarrow> fmlookup m' k = fmlookup
       (fmap_of_list
        [(''spec'', YDict (fmap_of_list
            [(''traffic'', YList [YDict (fmap_of_list
                [(''revisionName'', YStr ''rev-000''), (''percent'', YInt 100)])]),
             (''template'', YDict (fmap_of_list [(''image'', YStr ''app:3'')]))])),
         (''kind'', YStr ''Service''),
         (''metadata'', YDict (fmap_of_list [(''name'', YStr ''prop-management'')]))]) k) \<and>
      (\<forall>k. k \<noteq> ''traffic'' \<longrightarrow> fmlookup sp' k = fmlookup
       (fmap_of_list
            [(''traffic'', YList [YDict (fmap_of_list
                [(''revisionName'', YStr ''rev-000''), (''percent'', YInt 100)])]),
             (''template'', YDict (fmap_of_list [(''image'', YStr ''app:3'')]))]) k) \<and>
      fmlookup sp' ''traffic'' = Some (of_pyval (new_traffic (PStr ''rev-003''))) \<and>
      (\<forall>p. \<not> prefix p [''spec'', ''traffic''] \<and> \<not> prefix [''spec'', ''traffic''] p \<longrightarrow>
         field_at (shared doc') (root doc') p =
         field_at (shared example_export) (root example_export) p) \<and>
      (\<forall>p. p \<noteq> export_file \<longrightarrow> fmlookup fs' p = fmlookup example_files p)"
    by (rule patch_preserves_other_fields [OF h1 h2 h3 h4 h5])
  show ?thesis
    by (intro conjI) (rule h1 h2 h3 p1 p2 p3 c)+
qed

text \<open>
  Patching the example file for \<^verbatim>\<open>rev-003\<close> and then for \<^verbatim>\<open>rev-002\<close>.
\<close>

theorem patch_traffic_idempotent_witness:
  "fmlookup example_files export_file = Some ''exported-text'' \<and>
   yaml_safe_load example_lib ''exported-text'' = Some example_export \<and>
   patch_traffic_file example_lib (new_traffic (PStr ''rev-003'')) example_files =
     Inr (fmap_of_list [(export_file, ''patched-text'')]) \<and>
   patch_traffic example_export (new_traffic (PStr ''rev-003'')) = Inr example_patched \<and>
   yaml_safe_load example_lib (yaml_dump example_lib example_patched) = Some example_patched \<and>
   (\<exists>fs2 d2.
      patch_traffic_file example_lib (new_traffic (PStr ''rev-002''))
        (fmap_of_list [(export_file, ''patched-text'')]) = Inr fs2 \<and>
      patch_traffic example_export (new_traffic (PStr ''rev-002'')) = Inr d2 \<and>
      fs2 = fmupd export_file (yaml_dump example_lib d2) example_files \<and>
      traffic_of d2 =
        Some (YList [YDict (fmap_of_list
          [(''revisionName'', of_pyval (PStr ''rev-002'')), (''percent'', YInt 100)])]) \<and>
      (PStr ''rev-002'' = PStr ''rev-003'' \<longrightarrow>
         fs2 = fmap_of_list [(export_file, ''patched-text'')]))"
proof -
  have h1: "fmlookup example_files export_file = Some ''exported-text''"
    by (simp add: example_files_def)
  have h2: "yaml_safe_load example_lib ''exported-text'' = Some example_export"
    by simp
  have h3: "patch_traffic_file example_lib (new_traffic (PStr ''rev-003'')) example_files =
     Inr (fmap_of_list [(export_file, ''patched-text'')])"
    by simp
  have h4: "yaml_safe_load example_lib (yaml_dump example_lib d) = Some d"
    if "patch_traffic example_export (new_traffic (PStr ''rev-003'')) = Inr d" for d
    using that by simp
  note c = patch_traffic_idempotent [OF h1 h2 h3 h4, of "PStr ''rev-002''"]
  show ?thesis using h1 h2 h3 c by simp
qed

text \<open>
  The example tool when the listing is the empty list (scenario C).
\<close>

theorem empty_revision_list_fails_witness:
  "with_stdout example_tool list_cmd ''[]'' describe_cmd fmempty =
     (\<lparr>returncode = 0, stdout = ''service-json'', stderr = []\<rparr>, fmempty) \<and>
   json_loads example_lib ''service-json'' = Some example_document \<and>
   with_stdout example_tool list_cmd ''[]'' list_cmd fmempty =
     (\<lparr>returncode = 0, stdout = ''[]'', stderr = []\<rparr>, fmempty) \<and>
   json_loads example_lib ''[]'' = Some (PList []) \<and>
   fst (main example_lib (with_stdout example_tool list_cmd ''[]'') fmempty) = Raised IndexError \<and>
   exit_status (fst (main example_lib (with_stdout example_tool list_cmd ''[]'') fmempty)) = 1 \<and>
   map argv (calls (snd (main example_lib (with_stdout example_tool list_cmd ''[]'') fmempty))) =
     [describe_cmd, list_cmd] \<and>
   files (snd (main example_lib (with_stdout example_tool list_cmd ''[]'') fmempty)) = fmempty"
proof -
  have h1: "with_stdout example_tool list_cmd ''[]'' describe_cmd fmempty =
     (\<lparr>returncode = 0, stdout = ''service-json'', stderr = []\<rparr>, fmempty)"
    by simp
  have h2: "with_stdout example_tool list_cmd ''[]'' list_cmd fmempty =
     (\<lparr>returncode = 0, stdout = ''[]'', stderr = []\<rparr>, fmempty)"
    by simp
  have h3: "json_loads example_lib (stdout \<lparr>returncode = 0, stdout = ''service-json'', stderr = []\<rparr>) =
    Some example_document" by simp
  have h4: "json_loads example_lib (stdout \<lparr>returncode = 0, stdout = ''[]'', stderr = []\<rparr>) =
    Some (PList [])" by simp
  have c: "fst (main example_lib (with_stdout example_tool list_cmd ''[]'') fmempty) = Raised IndexError \<and>
   exit_status (fst (main example_lib (with_stdout example_tool list_cmd ''[]'') fmempty)) = 1 \<and>
   map argv (calls (snd (main example_lib (with_stdout example_tool list_cmd ''[]'') fmempty))) =
     [describe_cmd, list_cmd] \<and>
   files (snd (main example_lib (with_stdout example_tool list_cmd ''[]'') fmempty)) = fmempty"
    by (rule empty_revision_list_fails
          [where t = "with_stdout example_tool list_cmd ''[]''" and fs = fmempty
             and l = example_lib, OF h1 _ h3 h2 _ h4])
      simp_all
  show ?thesis using h1 h2 c by simp
qed

text \<open>
  The runs in which the listing fails (scenario B), in which the replace call fails
  (scenario D) and in which all four calls succeed (scenario A).
\<close>

theorem exit_status_zero_iff_witness:
  "fst (main example_lib failing_list_tool fmempty) = Returned 1 \<and>
   exit_status (fst (main example_lib failing_list_tool fmempty)) = 1 \<and>
   map argv (calls (snd (main example_lib failing_list_tool fmempty))) =
     [describe_cmd, list_cmd] \<and>
   last (printed (snd (main example_lib failing_list_tool fmempty))) =
     ''Error getting revisions: service not found'' \<and>
   fst (main example_lib failing_replace_tool example_files) = Returned 1 \<and>
   exit_status (fst (main example_lib failing_replace_tool example_files)) = 1 \<and>
   map argv (calls (snd (main example_lib failing_replace_tool example_files))) =
     [describe_cmd, list_cmd, export_cmd, replace_cmd] \<and>
   last (printed (snd (main example_lib failing_replace_tool example_files))) =
     ''Error applying configuration: permission denied'' \<and>
   fst (main example_lib example_tool example_files) = Returned 0 \<and>
   exit_status (fst (main example_lib example_tool example_files)) = 0 \<and>
   map argv (calls (snd (main example_lib example_tool example_files))) =
     [describe_cmd, list_cmd, export_cmd, replace_cmd]"
proof -
  let ?r1 = "\<lparr>returncode = 0, stdout = ''service-json'', stderr = []\<rparr>"
  let ?r2 = "\<lparr>returncode = 0, stdout = ''revisions-json'', stderr = []\<rparr>"
  let ?r2f = "\<lparr>returncode = 1, stdout = [], stderr = ''service not found''\<rparr>"
  let ?r3 = "\<lparr>returncode = 0, stdout = ''exported-text'', stderr = []\<rparr>"
  let ?r4 = "\<lparr>returncode = 0, stdout = [], stderr = []\<rparr>"
  let ?r4f = "\<lparr>returncode = 1, stdout = [], stderr = ''permission denied''\<rparr>"
  let ?patched = "fmap_of_list [(export_file, ''patched-text'')]"
  let ?names = "[PStr ''rev-003'', PStr ''rev-002'', PStr ''rev-001'']"

  txt \<open>The listing fails.\<close>
  let ?o1 = "fst (main example_lib failing_list_tool fmempty)"
  let ?s1 = "snd (main example_lib failing_list_tool fmempty)"
  have run1: "main example_lib failing_list_tool fmempty = (?o1, ?s1)" by simp
  have a1: "failing_list_tool describe_cmd fmempty = (?r1, fmempty)" by simp
  have a2: "failing_list_tool list_cmd fmempty = (?r2f, fmempty)" by simp
  have a3: "failing_list_tool export_cmd fmempty = (?r3, fmempty)" by simp
  note c1 = exit_status_zero_iff [OF run1 a1 a2 a3]
  have pre1: "returncode ?r1 = 0 \<and> json_loads example_lib (stdout ?r1) \<noteq> None \<and>
      returncode ?r2f \<noteq> 0"
    by simp
  from c1 have "returncode ?r1 = 0 \<and> json_loads example_lib (stdout ?r1) \<noteq> None \<and>
      returncode ?r2f \<noteq> 0 \<longrightarrow>
      ?o1 = Returned 1 \<and> exit_status ?o1 = 1 \<and>
      calls ?s1 = [\<lparr>argv = describe_cmd, files_before = fmempty, result = ?r1\<rparr>,
                   \<lparr>argv = list_cmd, files_before = fmempty, result = ?r2f\<rparr>] \<and>
      last (printed ?s1) = ''Error getting revisions: '' @ stderr ?r2f"
    by (elim conjE)
  from this [THEN mp, OF pre1]
  have w1: "?o1 = Returned 1" "exit_status ?o1 = 1"
    "map argv (calls ?s1) = [describe_cmd, list_cmd]"
    "last (printed ?s1) = ''Error getting revisions: service not found''"
    by simp_all

  txt \<open>The replace call fails.\<close>
  let ?o2 = "fst (main example_lib failing_replace_tool example_files)"
  let ?s2 = "snd (main example_lib failing_replace_tool example_files)"
  have run2: "main example_lib failing_replace_tool example_files = (?o2, ?s2)" by simp
  have b1: "failing_replace_tool describe_cmd example_files = (?r1, example_files)" by simp
  have b2: "failing_replace_tool list_cmd example_files = (?r2, example_files)" by simp
  have b3: "failing_replace_tool export_cmd example_files = (?r3, example_files)" by simp
  note c2 = exit_status_zero_iff [OF run2 b1 b2 b3]
  have pre2: "returncode ?r1 = 0 \<and> json_loads example_lib (stdout ?r1) \<noteq> None \<and>
      returncode ?r2 = 0 \<and> json_loads example_lib (stdout ?r2) = Some example_revisions \<and>
      select_latest example_revisions = Inr (PStr ''rev-003'', ?names)"
    by simp
  have pre2': "returncode ?r3 = 0 \<and>
      patch_traffic_file example_lib (new_traffic (PStr ''rev-003'')) example_files = Inr ?patched \<and>
      failing_replace_tool replace_cmd ?patched = (?r4f, ?patched)"
    by simp
  note d2 = c2 [THEN conjunct2, THEN conjunct2, THEN conjunct2, THEN conjunct2, THEN conjunct2,
    THEN conjunct2, THEN spec, THEN spec, THEN spec, THEN mp, OF pre2, THEN conjunct2,
    THEN spec, THEN spec, THEN spec, THEN mp, OF pre2']
  from d2 have w2: "?o2 = Returned 1" "exit_status ?o2 = 1"
    "map argv (calls ?s2) = [describe_cmd, list_cmd, export_cmd, replace_cmd]"
    "last (printed ?s2) = ''Error applying configuration: permission denied''"
    by simp_all

  txt \<open>All four calls succeed.\<close>
  let ?o3 = "fst (main example_lib example_tool example_files)"
  let ?s3 = "snd (main example_lib example_tool example_files)"
  have run3: "main example_lib example_tool example_files = (?o3, ?s3)" by simp
  have e1: "example_tool describe_cmd example_files = (?r1, example_files)" by simp
  have e2: "example_tool list_cmd example_files = (?r2, example_files)" by simp
  have e3: "example_tool export_cmd example_files = (?r3, example_files)" by simp
  note c3 = exit_status_zero_iff [OF run3 e1 e2 e3]
  have pre3': "returncode ?r3 = 0 \<and>
      patch_traffic_file example_lib (new_traffic (PStr ''rev-003'')) example_files = Inr ?patched \<and>
      example_tool replace_cmd ?patched = (?r4, ?patched)"
    by simp
  note d3 = c3 [THEN conjunct2, THEN conjunct2, THEN conjunct2, THEN conjunct2, THEN conjunct2,
    THEN conjunct2, THEN spec, THEN spec, THEN spec, THEN mp, OF pre2, THEN conjunct2,
    THEN spec, THEN spec, THEN spec, THEN mp, OF pre3']
  from d3 have w3: "?o3 = Returned 0" "exit_status ?o3 = 0"
    "map argv (calls ?s3) = [describe_cmd, list_cmd, export_cmd, replace_cmd]"
    by simp_all

  show ?thesis
    by (intro conjI) (rule w1 w2 w3)+
qed

text \<open>
  The calls of the successful run of the example.
\<close>

theorem steps_in_order_witness:
  "prefix (map argv (calls (snd (main example_lib example_tool example_files))))
     [describe_cmd, list_cmd, export_cmd, replace_cmd] \<and>
   replace_cmd \<in> set (map argv (calls (snd (main example_lib example_tool example_files)))) \<and>
   (\<exists>c1 c2 c3 c4 service revisions latest names.
      calls (snd (main example_lib example_tool example_files)) = [c1, c2, c3, c4] \<and>
      files_before c1 = example_files \<and> returncode (result c1) = 0 \<and>
      json_loads example_lib (stdout (result c1)) = Some service \<and>
      files_before c2 = snd (example_tool describe_cmd example_files) \<and>
      returncode (result c2) = 0 \<and>
      json_loads example_lib (stdout (result c2)) = Some revisions \<and>
      select_latest revisions = Inr (latest, names) \<and>
      files_before c3 = snd (example_tool list_cmd (files_before c2)) \<and>
      returncode (result c3) = 0 \<and>
      patch_traffic_file example_lib (new_traffic latest)
        (snd (example_tool export_cmd (files_before c3))) = Inr (files_before c4))"
proof -
  have run: "main example_lib example_tool example_files =
    (fst (main example_lib example_tool example_files),
     snd (main example_lib example_tool example_files))"
    by simp
  have m: "replace_cmd \<in> set (map argv (calls (snd (main example_lib example_tool example_files))))"
    by (simp add: example_run)
  from steps_in_order [OF run] m show ?thesis by blast
qed

text \<open>
  The listing of one revision instead of three, with the same first name.
\<close>

theorem names_only_displayed_witness:
  "example_tool list_cmd example_files =
     (\<lparr>returncode = 0, stdout = ''revisions-json'', stderr = []\<rparr>, example_files) \<and>
   json_loads example_lib ''revisions-json'' =
     Some (PList [revision_named ''rev-003'', revision_named ''rev-002'', revision_named ''rev-001'']) \<and>
   json_loads example_lib ''one-revision-json'' = Some (PList [revision_named ''rev-003'']) \<and>
   list_all is_revision
     [revision_named ''rev-003'', revision_named ''rev-002'', revision_named ''rev-001''] \<and>
   list_all is_revision [revision_named ''rev-003''] \<and>
   fst (main example_lib (with_stdout example_tool list_cmd ''one-revision-json'') example_files) =
     fst (main example_lib example_tool example_files) \<and>
   files (snd (main example_lib (with_stdout example_tool list_cmd ''one-revision-json'')
     example_files)) = files (snd (main example_lib example_tool example_files)) \<and>
   map argv (calls (snd (main example_lib (with_stdout example_tool list_cmd ''one-revision-json'')
     example_files))) = map argv (calls (snd (main example_lib example_tool example_files))) \<and>
   map files_before (calls (snd (main example_lib
     (with_stdout example_tool list_cmd ''one-revision-json'') example_files))) =
     map files_before (calls (snd (main example_lib example_tool example_files))) \<and>
   (\<exists>line. printed (snd (main example_lib (with_stdout example_tool list_cmd ''one-revision-json'')
      example_files)) = (printed (snd (main example_lib example_tool example_files)))[2 := line])"
proof -
  let ?t' = "with_stdout example_tool list_cmd ''one-revision-json''"
  have h1: "example_tool describe_cmd example_files =
     (\<lparr>returncode = 0, stdout = ''service-json'', stderr = []\<rparr>, example_files)"
    by simp
  have h2: "example_tool list_cmd example_files =
     (\<lparr>returncode = 0, stdout = ''revisions-json'', stderr = []\<rparr>, example_files)"
    by simp
  have h3': "json_loads example_lib ''revisions-json'' =
     Some (PList [revision_named ''rev-003'', revision_named ''rev-002'', revision_named ''rev-001''])"
    by (simp add: example_revisions_def)
  then have h3: "json_loads example_lib
      (stdout \<lparr>returncode = 0, stdout = ''revisions-json'', stderr = []\<rparr>) =
     Some (PList (revision_named ''rev-003'' # [revision_named ''rev-002'', revision_named ''rev-001'']))"
    by simp
  have h4: "json_loads example_lib ''one-revision-json'' = Some (PList (revision_named ''rev-003'' # []))"
    by simp
  have h5: "list_all is_revision
     (revision_named ''rev-003'' # [revision_named ''rev-002'', revision_named ''rev-001''])"
    by simp
  have h6: "list_all is_revision (revision_named ''rev-003'' # [])"
    by simp
  have h7: "metadata_name (revision_named ''rev-003'') = metadata_name (revision_named ''rev-003'')"
    by (rule refl)
  have h8: "main example_lib example_tool example_files =
     (fst (main example_lib example_tool example_files),
      snd (main example_lib example_tool example_files))"
    by simp
  have h9: "main example_lib ?t' example_files =
     (fst (main example_lib ?t' example_files), snd (main example_lib ?t' example_files))"
    by simp
  note c = names_only_displayed
    [where t = example_tool and l = example_lib and fs = example_files
       and x = "''one-revision-json''", OF h1 h2 h3 h4 h5 h6 h7 h8 h9]
  from c h2 h3' h4 h5 h6 show ?thesis by blast
qed

text \<open>
  Another JSON document as the output of the first describe call.
\<close>

theorem describe_output_unused_witness:
  "example_tool describe_cmd example_files =
     (\<lparr>returncode = 0, stdout = ''service-json'', stderr = []\<rparr>, example_files) \<and>
   json_loads example_lib ''service-json'' = Some example_document \<and>
   json_loads example_lib ''other-service-json'' = Some (PDict fmempty) \<and>
   fst (main example_lib (with_stdout example_tool describe_cmd ''other-service-json'')
     example_files) = fst (main example_lib example_tool example_files) \<and>
   files (snd (main example_lib (with_stdout example_tool describe_cmd ''other-service-json'')
     example_files)) = files (snd (main example_lib example_tool example_files)) \<and>
   printed (snd (main example_lib (with_stdout example_tool describe_cmd ''other-service-json'')
     example_files)) = printed (snd (main example_lib example_tool example_files)) \<and>
   tl (calls (snd (main example_lib (with_stdout example_tool describe_cmd ''other-service-json'')
     example_files))) = tl (calls (snd (main example_lib example_tool example_files)))"
proof -
  let ?t' = "with_stdout example_tool describe_cmd ''other-service-json''"
  have h1: "example_tool describe_cmd example_files =
     (\<lparr>returncode = 0, stdout = ''service-json'', stderr = []\<rparr>, example_files)"
    by simp
  have h2: "returncode \<lparr>returncode = 0, stdout = ''service-json'', stderr = []\<rparr> = 0"
    by simp
  have h3': "json_loads example_lib ''service-json'' = Some example_document"
    by simp
  then have h3: "json_loads example_lib
      (stdout \<lparr>returncode = 0, stdout = ''service-json'', stderr = []\<rparr>) = Some example_document"
    by simp
  have j: "json_loads example_lib ''other-service-json'' = Some (PDict fmempty)"
    by simp
  have h4: "main example_lib example_tool example_files =
     (fst (main example_lib example_tool example_files),
      snd (main example_lib example_tool example_files))"
    by simp
  have h5: "main example_lib ?t' example_files =
     (fst (main example_lib ?t' example_files), snd (main example_lib ?t' example_files))"
    by simp
  note c = describe_output_unused
    [where t = example_tool and l = example_lib and fs = example_files
       and x = "''other-service-json''", OF h1 h2 h3 h4 h5]
  from c have "fst (main example_lib ?t' example_files) =
      fst (main example_lib example_tool example_files) \<and>
    files (snd (main example_lib ?t' example_files)) =
      files (snd (main example_lib example_tool example_files)) \<and>
    printed (snd (main example_lib ?t' example_files)) =
      printed (snd (main example_lib example_tool example_files)) \<and>
    tl (calls (snd (main example_lib ?t' example_files))) =
      tl (calls (snd (main example_lib example_tool example_files)))"
    unfolding j option.case by (elim conjE) (intro conjI, assumption+)
  with h1 h3' j show ?thesis by blast
qed

end
